theory Spec2Isabelle
  imports
    Complex_Main
    "HOL-Library.AList"
    "HOL-Library.Multiset"
    "HOL-Library.Sublist"
begin

section \<open>Constants of popup.js\<close>

definition WEIGHT_FAVOURITE :: int where "WEIGHT_FAVOURITE = 2"
definition WEIGHT_TOP_RATED :: int where "WEIGHT_TOP_RATED = 1"
definition TAG_BONUS :: rat where "TAG_BONUS = 1 / 2"
definition GENRE_BONUS :: rat where "GENRE_BONUS = 3 / 10"
definition DIVERSITY_CAP :: nat where "DIVERSITY_CAP = 5"
definition MAX_RETRIES :: nat where "MAX_RETRIES = 4"
definition MAX_FAV_SOURCES :: nat where "MAX_FAV_SOURCES = 15"
definition MAX_TOP_SOURCES :: nat where "MAX_TOP_SOURCES = 10"

text \<open>The local constant \<^verbatim>\<open>CHUNK\<close> of \<^verbatim>\<open>computeRecommendations\<close>.\<close>

definition CHUNK :: nat where "CHUNK = 12"

section \<open>Data model\<close>

text \<open>
  JavaScript values that may be \<^verbatim>\<open>null\<close> or \<^verbatim>\<open>undefined\<close> are options.
  Numbers are doubles in the source. Identifiers, ranks, list scores
  (requested in the \<^verbatim>\<open>POINT_10\<close> format) and weights are whole numbers and are
  modelled as \<open>int\<close>; the bonuses and the final score are modelled as exact
  rationals. Field names are the source's, prefixed where two objects of the
  source share a field name (\<^verbatim>\<open>id\<close>, \<^verbatim>\<open>title\<close>, \<^verbatim>\<open>mediaId\<close>, \<^verbatim>\<open>genres\<close>, ...).
  Fields of a recommended title that the pipeline only passes on for display
  (cover image, format, episodes, season, mean score, site URL) are left out.
\<close>

datatype error =
    TooManyRequests
  | NonJson int
  | TokenExpired
  | ApiError string
  | HttpStatus int
  | UserNotFound
  | TypeError

text \<open>
  What an awaited \<^verbatim>\<open>AuthManager.gqlRequest\<close> gives its caller: a thrown error, or
  \<^verbatim>\<open>json.data\<close>, which is \<open>None\<close> when the body carries no data.
\<close>

type_synonym 'd gql_outcome = "error + 'd option"

record title_t =
  english :: "string option"
  romaji :: "string option"

record tag =
  name :: string
  rank :: int

record media =
  media_id :: int
  title :: title_t
  genres :: "string list option"
  tags :: "tag list option"

datatype source_type = Favori | TopNote

record task =
  task_mediaId :: int
  weight :: int
  sourceTitle :: "string option"
  task_type :: source_type

record reason =
  reason_sourceTitle :: "string option"
  reason_type :: source_type
  reason_weight :: int

record candidate =
  cand_media :: media
  baseScore :: int
  reasons :: "reason list"

text \<open>
  \<^verbatim>\<open>scoreMap\<close> is a JavaScript \<^verbatim>\<open>Map\<close>: it iterates in insertion order, and a key
  that is already present keeps its place. It is an association list in which
  a new key goes to the end.
\<close>

type_synonym score_map = "(int \<times> candidate) list"

text \<open>
  The data of one compound query: for the alias \<^verbatim>\<open>m\<close>\<open>i\<close>, the list
  \<^verbatim>\<open>recommendations.nodes\<close> when the path to it exists, and for each node its
  \<^verbatim>\<open>mediaRecommendation\<close>, which may be null.
\<close>

type_synonym compound_data = "media option list option list"

definition data_at :: "compound_data \<Rightarrow> nat \<Rightarrow> media option list option" where
  "data_at data i = (if i < length data then data ! i else None)"

section \<open>Fan-out aggregation (steps 3 and 4 of computeRecommendations)\<close>

definition reason_of :: "task \<Rightarrow> reason" where
  "reason_of task =
     \<lparr>reason_sourceTitle = sourceTitle task, reason_type = task_type task,
      reason_weight = weight task\<rparr>"

text \<open>The body of the loop over \<^verbatim>\<open>mediaData.recommendations.nodes\<close>.\<close>

definition add_node :: "task \<Rightarrow> media option \<Rightarrow> score_map \<Rightarrow> score_map" where
  "add_node task node scoreMap =
     (case node of
        None \<Rightarrow> scoreMap
      | Some media \<Rightarrow>
          (case map_of scoreMap (media_id media) of
             Some existing \<Rightarrow>
               AList.update (media_id media)
                 (existing\<lparr>baseScore := baseScore existing + weight task,
                            reasons := reasons existing @ [reason_of task]\<rparr>)
                 scoreMap
           | None \<Rightarrow>
               AList.update (media_id media)
                 \<lparr>cand_media = media, baseScore = weight task, reasons = [reason_of task]\<rparr>
                 scoreMap))"

text \<open>The callback of \<^verbatim>\<open>chunk.forEach((task, i) => ...)\<close>.\<close>

definition add_task :: "compound_data \<Rightarrow> task \<times> nat \<Rightarrow> score_map \<Rightarrow> score_map" where
  "add_task data ti scoreMap =
     (case data_at data (snd ti) of
        None \<Rightarrow> scoreMap
      | Some nodes \<Rightarrow> fold (add_node (fst ti)) nodes scoreMap)"

definition parse_chunk :: "compound_data \<Rightarrow> task list \<Rightarrow> score_map \<Rightarrow> score_map" where
  "parse_chunk data chunk scoreMap =
     fold (add_task data) (zip chunk [0..<length chunk]) scoreMap"

text \<open>
  One turn of the chunk loop: the \<^verbatim>\<open>try\<close> block with its \<^verbatim>\<open>catch\<close>. The state is
  the score map together with the warnings written by \<^verbatim>\<open>console.warn\<close>. The
  compound query is built from the media ids of the chunk alone, so the remote
  is a function of that list. A body without data makes \<^verbatim>\<open>data["m0"]\<close> throw a
  TypeError inside the \<^verbatim>\<open>try\<close>, before anything is added.
\<close>

definition process_chunk ::
  "(int list \<Rightarrow> compound_data gql_outcome) \<Rightarrow> task list \<Rightarrow>
     score_map \<times> error list \<Rightarrow> score_map \<times> error list" where
  "process_chunk gql chunk st =
     (case gql (map task_mediaId chunk) of
        Inl err \<Rightarrow> (fst st, snd st @ [err])
      | Inr None \<Rightarrow> (fst st, snd st @ [TypeError])
      | Inr (Some data) \<Rightarrow> (parse_chunk data chunk (fst st), snd st))"

function fanout_loop ::
  "(int list \<Rightarrow> compound_data gql_outcome) \<Rightarrow> task list \<Rightarrow> nat \<Rightarrow>
     score_map \<times> error list \<Rightarrow> score_map \<times> error list" where
  "fanout_loop gql tasks c st =
     (if c < length tasks
      then fanout_loop gql tasks (c + CHUNK)
             (process_chunk gql (take CHUNK (drop c tasks)) st)
      else st)"
  by pat_completeness auto
termination
  by (relation "measure (\<lambda>(gql, tasks, c, st). length tasks - c)")
     (auto simp: CHUNK_def)

declare fanout_loop.simps [simp del]

definition fanout ::
  "(int list \<Rightarrow> compound_data gql_outcome) \<Rightarrow> task list \<Rightarrow> score_map \<times> error list" where
  "fanout gql tasks = fanout_loop gql tasks 0 ([], [])"

section \<open>JavaScript helpers\<close>

text \<open>
  The operator \<^verbatim>\<open>a || b\<close> on values that are strings or null: null, undefined and
  the empty string are falsy, and the result is \<^verbatim>\<open>a\<close> when it is truthy and \<^verbatim>\<open>b\<close>
  otherwise, whatever \<^verbatim>\<open>b\<close> is.
\<close>

definition truthy :: "string option \<Rightarrow> bool" where
  "truthy s = (case s of None \<Rightarrow> False | Some v \<Rightarrow> v \<noteq> [])"

definition js_or :: "string option \<Rightarrow> string option \<Rightarrow> string option" where
  "js_or a b = (if truthy a then a else b)"

text \<open>The decimal text of a whole number, as a template literal prints it.\<close>

fun digits :: "nat \<Rightarrow> string" where
  "digits n =
     (if n < 10 then [''0123456789'' ! n]
      else digits (n div 10) @ [''0123456789'' ! (n mod 10)])"

declare digits.simps [simp del]

definition toString :: "int \<Rightarrow> string" where
  "toString i = (if i < 0 then CHR ''-'' # digits (nat (- i)) else digits (nat i))"

section \<open>fetchAllFavourites\<close>

record fav_node =
  node_id :: int
  node_title :: title_t

record fav_page =
  fav_nodes :: "fav_node list"
  hasNextPage :: bool

record fav =
  fav_id :: int
  fav_title :: "string option"

text \<open>The object pushed for a node: \<^verbatim>\<open>{ id: n.id, title: n.title.english || n.title.romaji || `#${n.id}` }\<close>.\<close>

definition fav_of_node :: "fav_node \<Rightarrow> fav" where
  "fav_of_node n =
     \<lparr>fav_id = node_id n,
      fav_title =
        js_or (js_or (english (node_title n)) (romaji (node_title n)))
              (Some (CHR ''#'' # toString (node_id n)))\<rparr>"

text \<open>
  The pagination loop \<^verbatim>\<open>while (hasNext)\<close>. The remote is the outcome of the request
  for each page number; inside the data, \<^verbatim>\<open>data.User\<close> may be null. The loop runs
  for as long as the remote announces a next page, so it need not return: the
  result is an option, \<open>None\<close> for a run that never ends.
\<close>

partial_function (option) favourites_loop ::
  "(nat \<Rightarrow> fav_page option gql_outcome) \<Rightarrow> nat \<Rightarrow> fav list \<Rightarrow> (error + fav list) option"
where
  "favourites_loop gql page results =
     (case gql page of
        Inl err \<Rightarrow> Some (Inl err)
      | Inr None \<Rightarrow> Some (Inl TypeError)
      | Inr (Some None) \<Rightarrow> Some (Inl UserNotFound)
      | Inr (Some (Some anime)) \<Rightarrow>
          (if hasNextPage anime
           then favourites_loop gql (page + 1) (results @ map fav_of_node (fav_nodes anime))
           else Some (Inr (results @ map fav_of_node (fav_nodes anime)))))"

definition fetchAllFavourites ::
  "(nat \<Rightarrow> fav_page option gql_outcome) \<Rightarrow> (error + fav list) option" where
  "fetchAllFavourites gql = favourites_loop gql 1 []"

section \<open>fetchUserList\<close>

record raw_media =
  raw_title :: title_t
  raw_genres :: "string list option"
  raw_tags :: "tag list option"

record raw_entry =
  raw_mediaId :: int
  raw_score :: int
  raw_status :: "string option"
  raw_entry_media :: raw_media

record media_list =
  list_status :: "string option"
  entries :: "raw_entry list"

record list_entry =
  mediaId :: int
  entry_score :: int
  status :: "string option"
  entry_title :: "string option"
  entry_genres :: "string list"
  entry_tags :: "tag list"

text \<open>The object pushed for an entry of a list.\<close>

definition entry_of :: "media_list \<Rightarrow> raw_entry \<Rightarrow> list_entry" where
  "entry_of l entry =
     \<lparr>mediaId = raw_mediaId entry,
      entry_score = raw_score entry,
      status = js_or (raw_status entry) (list_status l),
      entry_title =
        js_or (english (raw_title (raw_entry_media entry)))
              (romaji (raw_title (raw_entry_media entry))),
      entry_genres = (case raw_genres (raw_entry_media entry) of None \<Rightarrow> [] | Some gs \<Rightarrow> gs),
      entry_tags =
        (case raw_tags (raw_entry_media entry) of
           None \<Rightarrow> []
         | Some ts \<Rightarrow> map (\<lambda>t. \<lparr>name = name t, rank = rank t\<rparr>) ts)\<rparr>"

text \<open>
  \<^verbatim>\<open>Array.prototype.sort\<close> is stable, and the comparator \<^verbatim>\<open>b.score - a.score\<close>
  orders by descending score: \<open>sort_key\<close> on the negated score is the same
  stable sort. The data of the request is the value of
  \<^verbatim>\<open>data.MediaListCollection.lists\<close>; \<open>None\<close> stands for a null anywhere on that
  path, which makes the property access throw a TypeError.
\<close>

definition fetchUserList :: "media_list list gql_outcome \<Rightarrow> error + list_entry list" where
  "fetchUserList outcome =
     (case outcome of
        Inl err \<Rightarrow> Inl err
      | Inr None \<Rightarrow> Inl TypeError
      | Inr (Some mediaLists) \<Rightarrow>
          Inr (sort_key (\<lambda>e. - entry_score e)
                 (concat (map (\<lambda>l. map (entry_of l) (entries l)) mediaLists))))"

section \<open>computeRecommendations\<close>

subsection \<open>Step 2: the sets and the profile of the user\<close>

definition planningIds :: "list_entry list \<Rightarrow> int set" where
  "planningIds userList =
     set (map mediaId (filter (\<lambda>e. status e = Some ''PLANNING'') userList))"

definition seenIds :: "list_entry list \<Rightarrow> int set" where
  "seenIds userList =
     set (map mediaId (filter (\<lambda>e. status e \<noteq> Some ''PLANNING'') userList))"

definition topRated :: "list_entry list \<Rightarrow> list_entry list" where
  "topRated userList =
     take (MAX_TOP_SOURCES + MAX_FAV_SOURCES)
       (filter (\<lambda>e. status e \<noteq> Some ''PLANNING'' \<and> entry_score e > 0) userList)"

definition favouriteSet :: "fav list \<Rightarrow> int set" where
  "favouriteSet favourites = set (map fav_id favourites)"

definition topOnly :: "fav list \<Rightarrow> list_entry list \<Rightarrow> list_entry list" where
  "topOnly favourites userList =
     take MAX_TOP_SOURCES
       (filter (\<lambda>e. mediaId e \<notin> favouriteSet favourites) (topRated userList))"

record tag_stat =
  totalRank :: int
  occurrences :: nat

text \<open>
  \<^verbatim>\<open>userTagMap\<close> and \<^verbatim>\<open>userGenreMap\<close> are JavaScript Maps, kept as association
  lists in insertion order. The field \<^verbatim>\<open>count\<close> of a tag's statistics is named
  \<open>occurrences\<close> here.
\<close>

definition add_tag :: "tag \<Rightarrow> (string \<times> tag_stat) list \<Rightarrow> (string \<times> tag_stat) list" where
  "add_tag t m =
     (case map_of m (name t) of
        Some ex \<Rightarrow>
          AList.update (name t)
            (ex\<lparr>totalRank := totalRank ex + rank t, occurrences := occurrences ex + 1\<rparr>) m
      | None \<Rightarrow> AList.update (name t) \<lparr>totalRank = rank t, occurrences = 1\<rparr> m)"

definition userTagMap :: "list_entry list \<Rightarrow> (string \<times> tag_stat) list" where
  "userTagMap userList = fold (\<lambda>entry. fold add_tag (entry_tags entry)) userList []"

definition add_genre :: "string \<Rightarrow> (string \<times> nat) list \<Rightarrow> (string \<times> nat) list" where
  "add_genre g m = AList.update g ((case map_of m g of None \<Rightarrow> 0 | Some n \<Rightarrow> n) + 1) m"

definition userGenreMap :: "list_entry list \<Rightarrow> (string \<times> nat) list" where
  "userGenreMap userList = fold (\<lambda>entry. fold add_genre (entry_genres entry)) userList []"

definition topGenres :: "list_entry list \<Rightarrow> string set" where
  "topGenres userList =
     set (map fst (take 10 (sort_key (\<lambda>p. - int (snd p)) (userGenreMap userList))))"

subsection \<open>Step 3: the seeds\<close>

definition tasks_of :: "fav list \<Rightarrow> list_entry list \<Rightarrow> task list" where
  "tasks_of favourites userList =
     map (\<lambda>f. \<lparr>task_mediaId = fav_id f, weight = WEIGHT_FAVOURITE,
               sourceTitle = fav_title f, task_type = Favori\<rparr>)
         (take MAX_FAV_SOURCES favourites)
     @ map (\<lambda>entry. \<lparr>task_mediaId = mediaId entry, weight = WEIGHT_TOP_RATED,
                     sourceTitle = entry_title entry, task_type = TopNote\<rparr>)
         (topOnly favourites userList)"

subsection \<open>Step 5: titles already seen are left out\<close>

record flagged = candidate +
  isPlanning :: bool

definition filtered_of :: "int set \<Rightarrow> int set \<Rightarrow> score_map \<Rightarrow> flagged list" where
  "filtered_of seen planning scoreMap =
     map (\<lambda>p. \<lparr>cand_media = cand_media (snd p), baseScore = baseScore (snd p),
               reasons = reasons (snd p), isPlanning = (fst p \<in> planning)\<rparr>)
         (filter (\<lambda>p. fst p \<notin> seen) scoreMap)"

subsection \<open>Step 6: common tags, common genres and the bonus\<close>

record common_tag =
  common_name :: string
  strength :: int

record result = flagged +
  commonTags :: "common_tag list"
  tagBonus :: rat
  score :: rat

text \<open>
  \<^verbatim>\<open>Math.round\<close> rounds to the nearest whole number, a half upwards.
  \<^verbatim>\<open>+(x).toFixed(1)\<close> rounds to the nearest tenth, a half away from zero. Both
  are taken on exact rationals. On the values of this pipeline the doubles
  of the source agree with them: a rank average is a quotient of whole numbers,
  and a score is a whole base score plus at most three halves and three times
  0.3, which for base scores of the size a run can give a double holds far
  closer to the exact tenth than the 0.05 at which the rounding would change.
\<close>

definition Math_round :: "rat \<Rightarrow> int" where
  "Math_round x = \<lfloor>x + 1 / 2\<rfloor>"

definition toFixed1 :: "rat \<Rightarrow> rat" where
  "toFixed1 x =
     (if x < 0 then - (of_int \<lfloor>- x * 10 + 1 / 2\<rfloor> / 10)
      else of_int \<lfloor>x * 10 + 1 / 2\<rfloor> / 10)"

definition common_of :: "(string \<times> tag_stat) list \<Rightarrow> tag list \<Rightarrow> common_tag list" where
  "common_of tagMap ts =
     concat (map (\<lambda>t. case map_of tagMap (name t) of
                         None \<Rightarrow> []
                       | Some u \<Rightarrow>
                           [\<lparr>common_name = name t,
                             strength = Math_round (of_int (totalRank u) / of_nat (occurrences u))\<rparr>])
                 ts)"

definition refine :: "(string \<times> tag_stat) list \<Rightarrow> string set \<Rightarrow> flagged \<Rightarrow> result" where
  "refine tagMap topSet entry =
     (let common = sort_key (\<lambda>c. - strength c)
                     (common_of tagMap (case tags (cand_media entry) of None \<Rightarrow> [] | Some ts \<Rightarrow> ts));
          mediaGenres = (case genres (cand_media entry) of None \<Rightarrow> [] | Some gs \<Rightarrow> gs);
          matchedGenres = filter (\<lambda>g. g \<in> topSet) mediaGenres;
          tagPart = of_nat (min (length common) 3) * TAG_BONUS;
          genrePart = of_nat (min (length matchedGenres) 3) * GENRE_BONUS
      in \<lparr>cand_media = cand_media entry, baseScore = baseScore entry, reasons = reasons entry,
          isPlanning = isPlanning entry,
          commonTags = take 5 common,
          tagBonus = toFixed1 (tagPart + genrePart),
          score = toFixed1 (of_int (baseScore entry) + tagPart + genrePart)\<rparr>)"

subsection \<open>Step 7: sort and diversify\<close>

text \<open>\<^verbatim>\<open>(entry.media.genres || [])[0] || "Unknown"\<close>\<close>

definition primaryGenre :: "media \<Rightarrow> string" where
  "primaryGenre m =
     (case genres m of
        None \<Rightarrow> ''Unknown''
      | Some [] \<Rightarrow> ''Unknown''
      | Some (g # gs) \<Rightarrow> (if g = [] then ''Unknown'' else g))"

text \<open>
  The loop over the sorted entries. Its state is \<^verbatim>\<open>diversified\<close>, \<^verbatim>\<open>genreCount\<close>
  and \<^verbatim>\<open>deferred\<close>.
\<close>

fun diversify_loop ::
  "result list \<Rightarrow> result list \<times> (string \<rightharpoonup> nat) \<times> result list \<Rightarrow>
     result list \<times> (string \<rightharpoonup> nat) \<times> result list" where
  "diversify_loop [] st = st"
| "diversify_loop (entry # rest) (diversified, genreCount, deferred) =
     (let count = (case genreCount (primaryGenre (cand_media entry)) of None \<Rightarrow> 0 | Some n \<Rightarrow> n)
      in if count < DIVERSITY_CAP
         then diversify_loop rest
                (diversified @ [entry],
                 genreCount(primaryGenre (cand_media entry) \<mapsto> count + 1),
                 deferred)
         else diversify_loop rest (diversified, genreCount, deferred @ [entry]))"

definition diversified_of :: "result list \<Rightarrow> result list" where
  "diversified_of filtered = fst (diversify_loop filtered ([], Map.empty, []))"

definition deferred_of :: "result list \<Rightarrow> result list" where
  "deferred_of filtered = snd (snd (diversify_loop filtered ([], Map.empty, [])))"

definition finalResults :: "result list \<Rightarrow> result list" where
  "finalResults filtered = diversified_of filtered @ deferred_of filtered"

subsection \<open>The pipeline\<close>

text \<open>
  Steps 2 to 7, on the favourites and the list that step 1 fetched. The calls
  of \<^verbatim>\<open>onProgress\<close> and the console report do not change the returned value and
  are left out.
\<close>

definition pipeline ::
  "fav list \<Rightarrow> list_entry list \<Rightarrow> (int list \<Rightarrow> compound_data gql_outcome) \<Rightarrow> result list" where
  "pipeline favourites userList gql =
     (let scoreMap = fst (fanout gql (tasks_of favourites userList));
          filtered = filtered_of (seenIds userList) (planningIds userList) scoreMap;
          refined = map (refine (userTagMap userList) (topGenres userList)) filtered
      in finalResults (sort_key (\<lambda>e. - score e) refined))"

record remote =
  favouritesPage :: "nat \<Rightarrow> fav_page option gql_outcome"
  userListData :: "media_list list gql_outcome"
  recommendations :: "int list \<Rightarrow> compound_data gql_outcome"

text \<open>
  Step 1 awaits \<^verbatim>\<open>Promise.all\<close> of the two fetches, which run at the same time: it
  throws as soon as one of them throws, also while the other is still running,
  and goes on when both have returned. When both throw, the error of the one
  that threw first is thrown. Which of the two that is depends on the time the
  answers take and not on what they say, so it is an input of the run beside
  the remote.
\<close>

datatype arrival = FavouritesFirst | ListFirst

text \<open>
  Every map and list that the function works on (\<^verbatim>\<open>scoreMap\<close>, \<^verbatim>\<open>userTagMap\<close>,
  \<^verbatim>\<open>userGenreMap\<close>, \<^verbatim>\<open>genreCount\<close>, ...) is created inside the call, and the
  function reads no clock. The one static field on its path is
  \<^verbatim>\<open>AuthManager._token\<close>, which \<^verbatim>\<open>gqlRequest\<close> copies into the header of a request:
  it is part of what is asked, and reaches the run through the answers alone.
\<close>

definition computeRecommendations :: "arrival \<Rightarrow> remote \<Rightarrow> (error + result list) option" where
  "computeRecommendations first r =
     (case fetchUserList (userListData r) of
        Inl listErr \<Rightarrow>
          (case fetchAllFavourites (favouritesPage r) of
             Some (Inl favErr) \<Rightarrow>
               (case first of
                  FavouritesFirst \<Rightarrow> Some (Inl favErr)
                | ListFirst \<Rightarrow> Some (Inl listErr))
           | _ \<Rightarrow> Some (Inl listErr))
      | Inr userList \<Rightarrow>
          (case fetchAllFavourites (favouritesPage r) of
             None \<Rightarrow> None
           | Some (Inl favErr) \<Rightarrow> Some (Inl favErr)
           | Some (Inr favourites) \<Rightarrow>
               Some (Inr (pipeline favourites userList (recommendations r)))))"

section \<open>AuthManager.gqlRequest\<close>

text \<open>
  \<^verbatim>\<open>parseInt(s, 10)\<close>: leading white space is skipped, one sign is read, and the
  longest run of decimal digits that follows is the value; without a digit the
  result is NaN, here \<open>None\<close>. Strings are byte strings, so the white space is
  the ASCII white space, and the value is the exact whole number.
\<close>

definition isSpace :: "char \<Rightarrow> bool" where
  "isSpace c = (c \<in> set [CHR 0x09, CHR 0x0A, CHR 0x0B, CHR 0x0C, CHR 0x0D, CHR '' ''])"

definition isDigit :: "char \<Rightarrow> bool" where
  "isDigit c = (c \<in> set ''0123456789'')"

definition digitValue :: "char \<Rightarrow> int" where
  "digitValue c = int (of_char c) - 48"

definition parseInt :: "string \<Rightarrow> int option" where
  "parseInt str =
     (let s = dropWhile isSpace str;
          negative = (s \<noteq> [] \<and> hd s = CHR ''-'');
          unsigned = (if s \<noteq> [] \<and> (hd s = CHR ''-'' \<or> hd s = CHR ''+'') then tl s else s);
          ds = takeWhile isDigit unsigned
      in if ds = [] then None
         else Some ((if negative then - 1 else 1) * foldl (\<lambda>acc c. acc * 10 + digitValue c) 0 ds))"

text \<open>
  The response of one \<^verbatim>\<open>fetch\<close>: its status, its \<^verbatim>\<open>Retry-After\<close> header, and its
  body when that parses as JSON, with the messages of \<^verbatim>\<open>json.errors\<close> and with
  \<^verbatim>\<open>json.data\<close>.
\<close>

record 'd json_body =
  errors :: "string list option"
  json_data :: "'d option"

record 'd response =
  http_status :: int
  retry_after :: "string option"
  json :: "'d json_body option"

text \<open>
  What a call does besides returning: the pauses it slept, in milliseconds and
  in order, and whether it logged the user out.
\<close>

record 'd gql_run =
  outcome :: "'d gql_outcome"
  slept :: "int list"
  loggedOut :: bool

definition ok :: "'d response \<Rightarrow> bool" where
  "ok res = (200 \<le> http_status res \<and> http_status res \<le> 299)"

definition join :: "string \<Rightarrow> string list \<Rightarrow> string" where
  "join sep xs = (case xs of [] \<Rightarrow> [] | x # rest \<Rightarrow> foldl (\<lambda>acc y. acc @ sep @ y) x rest)"

text \<open>\<^verbatim>\<open>toLowerCase\<close> on the ASCII letters, and \<^verbatim>\<open>s.includes(t)\<close>.\<close>

definition toLowerCase :: "string \<Rightarrow> string" where
  "toLowerCase s =
     map (\<lambda>c. if c \<in> set ''ABCDEFGHIJKLMNOPQRSTUVWXYZ''
               then char_of (of_char c + (32 :: nat)) else c) s"

definition js_includes :: "string \<Rightarrow> string \<Rightarrow> bool" where
  "js_includes s t = sublist t s"

text \<open>The part of \<^verbatim>\<open>gqlRequest\<close> after the rate-limit branch.\<close>

definition after_fetch :: "'d response \<Rightarrow> 'd gql_run" where
  "after_fetch res =
     (case json res of
        None \<Rightarrow> \<lparr>outcome = Inl (NonJson (http_status res)), slept = [], loggedOut = False\<rparr>
      | Some body \<Rightarrow>
          (case errors body of
             Some (e # es) \<Rightarrow>
               (if js_includes (toLowerCase (join '', '' (e # es))) ''invalid token''
                   \<or> http_status res = 401
                then \<lparr>outcome = Inl TokenExpired, slept = [], loggedOut = True\<rparr>
                else \<lparr>outcome = Inl (ApiError (join '', '' (e # es))), slept = [],
                      loggedOut = False\<rparr>)
           | _ \<Rightarrow>
               (if \<not> ok res \<and> json_data body = None
                then \<lparr>outcome = Inl (HttpStatus (http_status res)), slept = [],
                      loggedOut = False\<rparr>
                else \<lparr>outcome = Inr (json_data body), slept = [], loggedOut = False\<rparr>)))"

text \<open>
  \<^verbatim>\<open>parseInt(res.headers.get("Retry-After") || "0", 10)\<close> and the pause computed
  from it.
\<close>

definition retryAfter :: "'d response \<Rightarrow> int option" where
  "retryAfter res =
     parseInt (case js_or (retry_after res) (Some ''0'') of None \<Rightarrow> ''0'' | Some h \<Rightarrow> h)"

definition backoff :: "'d response \<Rightarrow> nat \<Rightarrow> int" where
  "backoff res attempt =
     (case retryAfter res of
        None \<Rightarrow> 2 ^ attempt * 1500
      | Some n \<Rightarrow> if n > 0 then n * 1000 else 2 ^ attempt * 1500)"

text \<open>
  The request itself. \<open>fetch attempt\<close> is the response that the \<^verbatim>\<open>fetch\<close> of the
  call with \<^verbatim>\<open>_attempt = attempt\<close> receives; every call makes one \<^verbatim>\<open>fetch\<close>.
\<close>

function gqlRequest :: "(nat \<Rightarrow> 'd response) \<Rightarrow> nat \<Rightarrow> 'd gql_run" where
  "gqlRequest fetch attempt =
     (if http_status (fetch attempt) = 429
      then (if MAX_RETRIES \<le> attempt
            then \<lparr>outcome = Inl TooManyRequests, slept = [], loggedOut = False\<rparr>
            else (let r = gqlRequest fetch (attempt + 1)
                  in r\<lparr>slept := backoff (fetch attempt) attempt # slept r\<rparr>))
      else after_fetch (fetch attempt))"
  by pat_completeness auto
termination
  by (relation "measure (\<lambda>(fetch, attempt). MAX_RETRIES - attempt)") auto

declare gqlRequest.simps [simp del]

section \<open>The notions the claims speak of\<close>

subsection \<open>Seed hits\<close>

text \<open>
  The definitions of this section are not code of the repository. They name
  what the specification speaks of. For the fan-out: the titles that the batch
  of a seed lists, the seed hits of a run, and the sum of seed weights as the
  specification words it.
\<close>

primrec listed :: "media option list \<Rightarrow> media list" where
  "listed [] = []"
| "listed (n # ns) = (case n of None \<Rightarrow> listed ns | Some m \<Rightarrow> m # listed ns)"

definition seed_batch ::
  "(int list \<Rightarrow> compound_data gql_outcome) \<Rightarrow> task list \<Rightarrow> nat \<Rightarrow> media list" where
  "seed_batch gql tasks p =
     (case gql (map task_mediaId (take CHUNK (drop (p div CHUNK * CHUNK) tasks))) of
        Inl err \<Rightarrow> []
      | Inr None \<Rightarrow> []
      | Inr (Some data) \<Rightarrow>
          (case data_at data (p mod CHUNK) of None \<Rightarrow> [] | Some nodes \<Rightarrow> listed nodes))"

definition hits_from ::
  "(int list \<Rightarrow> compound_data gql_outcome) \<Rightarrow> task list \<Rightarrow> nat \<Rightarrow> nat \<Rightarrow> (task \<times> media) list" where
  "hits_from gql tasks a b =
     concat (map (\<lambda>p. map (Pair (tasks ! p)) (seed_batch gql tasks p)) [a..<b])"

definition seed_hits ::
  "(int list \<Rightarrow> compound_data gql_outcome) \<Rightarrow> task list \<Rightarrow> (task \<times> media) list" where
  "seed_hits gql tasks = hits_from gql tasks 0 (length tasks)"

definition add_hit :: "task \<times> media \<Rightarrow> score_map \<Rightarrow> score_map" where
  "add_hit h = add_node (fst h) (Some (snd h))"

definition hits_of :: "int \<Rightarrow> (task \<times> media) list \<Rightarrow> task list" where
  "hits_of k hs = map fst (filter (\<lambda>h. media_id (snd h) = k) hs)"

definition spec_baseScore ::
  "(int list \<Rightarrow> compound_data gql_outcome) \<Rightarrow> task list \<Rightarrow> int \<Rightarrow> int" where
  "spec_baseScore gql tasks k =
     (\<Sum>p\<leftarrow>[0..<length tasks].
        if k \<in> media_id ` set (seed_batch gql tasks p) then weight (tasks ! p) else 0)"

subsection \<open>Primary genres, shared tags and shared genres\<close>

text \<open>
  The primary genre as the specification words it, the number of entries of a
  primary genre, the invariant of the diversity loop, the tags and genres a
  title shares with the profile, and the two components of the bonus.
\<close>

definition spec_primaryGenre :: "media \<Rightarrow> string" where
  "spec_primaryGenre m =
     (case genres m of None \<Rightarrow> ''Unknown'' | Some [] \<Rightarrow> ''Unknown'' | Some (g # gs) \<Rightarrow> g)"

definition genre_count :: "string \<Rightarrow> result list \<Rightarrow> nat" where
  "genre_count g xs = length (filter (\<lambda>e. primaryGenre (cand_media e) = g) xs)"

definition count_inv :: "result list \<times> (string \<rightharpoonup> nat) \<times> result list \<Rightarrow> bool" where
  "count_inv st =
     (\<forall>g. (case fst (snd st) g of None \<Rightarrow> 0 | Some n \<Rightarrow> n) = genre_count g (fst st)
          \<and> genre_count g (fst st) \<le> DIVERSITY_CAP)"

definition tags_of :: "media \<Rightarrow> tag list" where
  "tags_of m = (case tags m of None \<Rightarrow> [] | Some ts \<Rightarrow> ts)"

definition genres_of :: "media \<Rightarrow> string list" where
  "genres_of m = (case genres m of None \<Rightarrow> [] | Some gs \<Rightarrow> gs)"

definition shared_tags :: "(string \<times> tag_stat) list \<Rightarrow> media \<Rightarrow> tag list" where
  "shared_tags tagMap m = filter (\<lambda>t. name t \<in> fst ` set tagMap) (tags_of m)"

definition shared_genres :: "string set \<Rightarrow> media \<Rightarrow> string list" where
  "shared_genres topSet m = filter (\<lambda>g. g \<in> topSet) (genres_of m)"

definition stats_pos :: "(string \<times> tag_stat) list \<Rightarrow> bool" where
  "stats_pos m = list_all (\<lambda>p. 0 < occurrences (snd p)) m"

definition tag_part :: "(string \<times> tag_stat) list \<Rightarrow> media \<Rightarrow> rat" where
  "tag_part tagMap m = of_nat (min (length (shared_tags tagMap m)) 3) * TAG_BONUS"

definition genre_part :: "string set \<Rightarrow> media \<Rightarrow> rat" where
  "genre_part topSet m = of_nat (min (length (shared_genres topSet m)) 3) * GENRE_BONUS"

subsection \<open>Seeds\<close>

text \<open>
  The seeds as the specification words them: an entry is eligible when it is
  not planned and has a score above 0; the rated seeds are the first ten
  eligible entries that are no favourites.
\<close>

definition eligible :: "list_entry \<Rightarrow> bool" where
  "eligible e = (status e \<noteq> Some ''PLANNING'' \<and> 0 < entry_score e)"

definition fav_seed :: "fav \<Rightarrow> task" where
  "fav_seed f = \<lparr>task_mediaId = fav_id f, weight = 2, sourceTitle = fav_title f, task_type = Favori\<rparr>"

definition rated_seed :: "list_entry \<Rightarrow> task" where
  "rated_seed e =
     \<lparr>task_mediaId = mediaId e, weight = 1, sourceTitle = entry_title e, task_type = TopNote\<rparr>"

definition spec_rated_seeds :: "fav list \<Rightarrow> list_entry list \<Rightarrow> list_entry list" where
  "spec_rated_seeds favs ul =
     take 10 (filter (\<lambda>e. mediaId e \<notin> fav_id ` set favs) (filter eligible ul))"

definition spec_tasks :: "fav list \<Rightarrow> list_entry list \<Rightarrow> task list" where
  "spec_tasks favs ul =
     map fav_seed (take 15 favs) @ map rated_seed (spec_rated_seeds favs ul)"

definition fetched_entries :: "media_list list \<Rightarrow> list_entry list" where
  "fetched_entries mediaLists = concat (map (\<lambda>l. map (entry_of l) (entries l)) mediaLists)"

subsection \<open>The batch requests of a run\<close>

text \<open>The lists of media ids of the compound queries that a list of seeds leads to.\<close>

definition requested_batches :: "task list \<Rightarrow> int list list" where
  "requested_batches tasks =
     map (\<lambda>j. map task_mediaId (take CHUNK (drop (j * CHUNK) tasks)))
         [0..<(length tasks + CHUNK - 1) div CHUNK]"

section \<open>Example inputs\<close>

text \<open>The scenario of the specification: two favourites and one top-rated seed.\<close>

definition ex_media :: "int \<Rightarrow> string \<Rightarrow> media" where
  "ex_media i g = \<lparr>media_id = i, title = \<lparr>english = None, romaji = Some ''R''\<rparr>,
     genres = Some [g], tags = None\<rparr>"

definition ex_seed :: "int \<Rightarrow> int \<Rightarrow> source_type \<Rightarrow> task" where
  "ex_seed i w ty = \<lparr>task_mediaId = i, weight = w, sourceTitle = Some ''S'', task_type = ty\<rparr>"

definition ex_tasks :: "task list" where
  "ex_tasks = [ex_seed 1 2 Favori, ex_seed 2 2 Favori, ex_seed 3 1 TopNote]"

definition ex_gql :: "int list \<Rightarrow> compound_data gql_outcome" where
  "ex_gql ids =
     (if ids = [1, 2, 3] then
        Inr (Some [Some [Some (ex_media 10 ''Action'')],
                   Some [Some (ex_media 10 ''Action''), Some (ex_media 11 ''Drama'')],
                   Some [Some (ex_media 11 ''Drama'')]])
      else if ids = [3, 2, 1] then
        Inr (Some [Some [Some (ex_media 11 ''Drama'')],
                   Some [Some (ex_media 10 ''Action''), Some (ex_media 11 ''Drama'')],
                   Some [Some (ex_media 10 ''Action'')]])
      else Inl (HttpStatus 500))"

definition dup_gql :: "int list \<Rightarrow> compound_data gql_outcome" where
  "dup_gql ids = Inr (Some [Some [Some (ex_media 10 ''Action''), Some (ex_media 10 ''Action'')]])"

text \<open>
  A whole run: three favourites on two pages, a list of four entries of which
  one is planned, and one batch of five seeds.
\<close>

definition run_title :: "string option \<Rightarrow> string option \<Rightarrow> title_t" where
  "run_title e r = \<lparr>english = e, romaji = r\<rparr>"

definition run_media :: "int \<Rightarrow> string list \<Rightarrow> tag list \<Rightarrow> media" where
  "run_media i gs ts =
     \<lparr>media_id = i, title = run_title None (Some ''T''), genres = Some gs, tags = Some ts\<rparr>"

definition run_entry ::
  "int \<Rightarrow> int \<Rightarrow> string \<Rightarrow> string list \<Rightarrow> tag list \<Rightarrow> raw_entry" where
  "run_entry i s st gs ts =
     \<lparr>raw_mediaId = i, raw_score = s, raw_status = Some st,
      raw_entry_media = \<lparr>raw_title = run_title (Some ''E'') None, raw_genres = Some gs,
                         raw_tags = Some ts\<rparr>\<rparr>"

definition run_favourites :: "nat \<Rightarrow> fav_page option gql_outcome" where
  "run_favourites page =
     (if page = 1 then
        Inr (Some (Some \<lparr>fav_nodes =
               [\<lparr>node_id = 1, node_title = run_title (Some ''Alpha'') (Some ''Arufa'')\<rparr>,
                \<lparr>node_id = 2, node_title = run_title None (Some ''Beta'')\<rparr>],
             hasNextPage = True\<rparr>))
      else if page = 2 then
        Inr (Some (Some \<lparr>fav_nodes = [\<lparr>node_id = 3, node_title = run_title None None\<rparr>],
             hasNextPage = False\<rparr>))
      else Inl (HttpStatus 500))"

definition run_lists :: "media_list list" where
  "run_lists =
     [\<lparr>list_status = Some ''COMPLETED'',
       entries =
         [run_entry 20 8 ''COMPLETED'' [''Drama''] [],
          run_entry 1 10 ''COMPLETED'' [''Action'', ''Drama'']
            [\<lparr>name = ''Mecha'', rank = 80\<rparr>],
          run_entry 4 9 ''COMPLETED'' [''Action'']
            [\<lparr>name = ''Mecha'', rank = 61\<rparr>, \<lparr>name = ''Space'', rank = 70\<rparr>]]\<rparr>,
      \<lparr>list_status = Some ''PLANNING'',
       entries = [run_entry 21 0 ''PLANNING'' [] []]\<rparr>]"

definition run_recommendations :: "int list \<Rightarrow> compound_data gql_outcome" where
  "run_recommendations ids =
     (if ids = [1, 2, 3, 4, 20] then
        Inr (Some
          [Some [Some (run_media 100 [''Action'', ''Comedy'']
                         [\<lparr>name = ''Mecha'', rank = 50\<rparr>, \<lparr>name = ''Idol'', rank = 40\<rparr>,
                          \<lparr>name = ''Space'', rank = 30\<rparr>]),
                 Some (run_media 20 [''Drama''] [])],
           Some [Some (run_media 100 [''Action'', ''Comedy''] []),
                 Some (run_media 21 [] [])],
           None,
           Some [Some (run_media 101 [''Drama''] []), None],
           Some [Some (run_media 3 [''Action''] [])]])
      else Inl (HttpStatus 500))"

definition run_remote :: remote where
  "run_remote = \<lparr>favouritesPage = run_favourites, userListData = Inr (Some run_lists),
                  recommendations = run_recommendations\<rparr>"

definition run_favs :: "fav list" where
  "run_favs = [\<lparr>fav_id = 1, fav_title = Some ''Alpha''\<rparr>, \<lparr>fav_id = 2, fav_title = Some ''Beta''\<rparr>,
               \<lparr>fav_id = 3, fav_title = Some ''#3''\<rparr>]"

definition run_userList :: "list_entry list" where
  "run_userList =
     [\<lparr>mediaId = 1, entry_score = 10, status = Some ''COMPLETED'', entry_title = Some ''E'',
       entry_genres = [''Action'', ''Drama''], entry_tags = [\<lparr>name = ''Mecha'', rank = 80\<rparr>]\<rparr>,
      \<lparr>mediaId = 4, entry_score = 9, status = Some ''COMPLETED'', entry_title = Some ''E'',
       entry_genres = [''Action''],
       entry_tags = [\<lparr>name = ''Mecha'', rank = 61\<rparr>, \<lparr>name = ''Space'', rank = 70\<rparr>]\<rparr>,
      \<lparr>mediaId = 20, entry_score = 8, status = Some ''COMPLETED'', entry_title = Some ''E'',
       entry_genres = [''Drama''], entry_tags = []\<rparr>,
      \<lparr>mediaId = 21, entry_score = 0, status = Some ''PLANNING'', entry_title = Some ''E'',
       entry_genres = [], entry_tags = []\<rparr>]"

definition run_tasks :: "task list" where
  "run_tasks =
     [\<lparr>task_mediaId = 1, weight = 2, sourceTitle = Some ''Alpha'', task_type = Favori\<rparr>,
      \<lparr>task_mediaId = 2, weight = 2, sourceTitle = Some ''Beta'', task_type = Favori\<rparr>,
      \<lparr>task_mediaId = 3, weight = 2, sourceTitle = Some ''#3'', task_type = Favori\<rparr>,
      \<lparr>task_mediaId = 4, weight = 1, sourceTitle = Some ''E'', task_type = TopNote\<rparr>,
      \<lparr>task_mediaId = 20, weight = 1, sourceTitle = Some ''E'', task_type = TopNote\<rparr>]"

definition run_result ::
  "media \<Rightarrow> int \<Rightarrow> reason list \<Rightarrow> bool \<Rightarrow> common_tag list \<Rightarrow> rat \<Rightarrow> rat \<Rightarrow> result" where
  "run_result m b rs p cs tb s =
     \<lparr>cand_media = m, baseScore = b, reasons = rs, isPlanning = p, commonTags = cs,
      tagBonus = tb, score = s\<rparr>"

definition run_results :: "result list" where
  "run_results =
     [run_result
        (run_media 100 [''Action'', ''Comedy'']
           [\<lparr>name = ''Mecha'', rank = 50\<rparr>, \<lparr>name = ''Idol'', rank = 40\<rparr>,
            \<lparr>name = ''Space'', rank = 30\<rparr>])
        4
        [\<lparr>reason_sourceTitle = Some ''Alpha'', reason_type = Favori, reason_weight = 2\<rparr>,
         \<lparr>reason_sourceTitle = Some ''Beta'', reason_type = Favori, reason_weight = 2\<rparr>]
        False
        [\<lparr>common_name = ''Mecha'', strength = 71\<rparr>, \<lparr>common_name = ''Space'', strength = 70\<rparr>]
        (13 / 10) (53 / 10),
      run_result (run_media 21 [] []) 2
        [\<lparr>reason_sourceTitle = Some ''Beta'', reason_type = Favori, reason_weight = 2\<rparr>]
        True [] 0 2,
      run_result (run_media 101 [''Drama''] []) 1
        [\<lparr>reason_sourceTitle = Some ''E'', reason_type = TopNote, reason_weight = 1\<rparr>]
        False [] (3 / 10) (13 / 10),
      run_result (run_media 3 [''Action''] []) 1
        [\<lparr>reason_sourceTitle = Some ''E'', reason_type = TopNote, reason_weight = 1\<rparr>]
        False [] (3 / 10) (13 / 10)]"

text \<open>A list of nine scored entries for the diversity loop.\<close>

definition div_entry :: "int \<Rightarrow> rat \<Rightarrow> string \<Rightarrow> result" where
  "div_entry i s g = run_result (run_media i [g] []) 0 [] False [] 0 s"

definition div_input :: "result list" where
  "div_input =
     [div_entry 1 9 ''Action'', div_entry 2 8 ''Action'', div_entry 3 7 ''Action'',
      div_entry 4 6 ''Action'', div_entry 5 5 ''Action'', div_entry 6 4 ''Action'',
      div_entry 7 3 ''Drama'', div_entry 8 2 ''Action'', div_entry 9 1 ''Drama'']"

text \<open>Sixteen favourites at the head of a rated list of 26 titles.\<close>

definition many_favs :: "fav list" where
  "many_favs =
     map (\<lambda>i. \<lparr>fav_id = i, fav_title = Some ''F''\<rparr>)
       [1, 2, 3, 4, 5, 6, 7, 8, 9, 10, 11, 12, 13, 14, 15, 16]"

definition rated :: "int \<Rightarrow> int \<Rightarrow> list_entry" where
  "rated i s = \<lparr>mediaId = i, entry_score = s, status = Some ''COMPLETED'',
     entry_title = Some ''E'', entry_genres = [], entry_tags = []\<rparr>"

definition many_rated :: "list_entry list" where
  "many_rated =
     map (\<lambda>i. rated i 10) [1, 2, 3, 4, 5, 6, 7, 8, 9, 10, 11, 12, 13, 14, 15, 16]
     @ map (\<lambda>i. rated i 9) [17, 18, 19, 20, 21, 22, 23, 24, 25, 26]"

text \<open>Responses to one request: rate-limited for ever, and rate-limited twice.\<close>

definition hint_response :: "string option \<Rightarrow> unit response" where
  "hint_response h = \<lparr>http_status = 429, retry_after = h, json = None\<rparr>"

definition data_response :: "unit response" where
  "data_response = \<lparr>http_status = 200, retry_after = None,
      json = Some \<lparr>errors = None, json_data = Some ()\<rparr>\<rparr>"

definition always_limited :: "nat \<Rightarrow> unit response" where
  "always_limited attempt = hint_response None"

definition limited_twice :: "nat \<Rightarrow> unit response" where
  "limited_twice attempt =
     (if attempt = 0 then hint_response None
      else if attempt = 1 then hint_response (Some ''30'')
      else data_response)"

text \<open>
  Thirteen seeds in two batches of which the first fails; remotes on which a
  fetch of step 1 fails; a remote that differs from the example run on batch
  requests the run never makes; a title without english and romaji name.
\<close>

definition batch_tasks :: "task list" where
  "batch_tasks = map (\<lambda>i. ex_seed i 2 Favori) [1, 2, 3, 4, 5, 6, 7, 8, 9, 10, 11, 12, 13]"

definition batch_gql :: "int list \<Rightarrow> compound_data gql_outcome" where
  "batch_gql ids =
     (if ids = [13] then Inr (Some [Some [Some (ex_media 10 ''Action'')]])
      else Inl (HttpStatus 500))"

definition failing_remote :: "error + unit \<Rightarrow> error + unit \<Rightarrow> remote" where
  "failing_remote favResult listResult =
     \<lparr>favouritesPage =
        (\<lambda>page. case favResult of Inl e \<Rightarrow> Inl e
                 | Inr u \<Rightarrow> Inr (Some (Some \<lparr>fav_nodes = [], hasNextPage = False\<rparr>))),
      userListData = (case listResult of Inl e \<Rightarrow> Inl e | Inr u \<Rightarrow> Inr (Some [])),
      recommendations = (\<lambda>ids. Inl (HttpStatus 500))\<rparr>"

definition other_remote :: remote where
  "other_remote =
     run_remote\<lparr>recommendations :=
       (\<lambda>ids. if ids = [1, 2, 3, 4, 20] then run_recommendations ids else Inr None)\<rparr>"

definition untitled_entry :: raw_entry where
  "untitled_entry =
     \<lparr>raw_mediaId = 7, raw_score = 9, raw_status = Some ''COMPLETED'',
      raw_entry_media = \<lparr>raw_title = \<lparr>english = None, romaji = None\<rparr>,
                         raw_genres = None, raw_tags = None\<rparr>\<rparr>"

definition untitled_node :: fav_node where
  "untitled_node = \<lparr>node_id = 7, node_title = \<lparr>english = None, romaji = None\<rparr>\<rparr>"

section \<open>The fan-out aggregation sums seed hits\<close>

lemma fold_add_node: "fold (add_node t) nodes sm = fold add_hit (map (Pair t) (listed nodes)) sm"
  by (induction nodes arbitrary: sm) (auto simp: add_hit_def add_node_def split: option.splits)

lemma zip_upt_nth: "zip xs [0..<length xs] = map (\<lambda>i. (xs ! i, i)) [0..<length xs]"
  by (rule nth_equalityI) auto

lemma fold_concat_map: "fold f (concat (map g xs)) s = fold (\<lambda>x. fold f (g x)) xs s"
  by (induction xs arbitrary: s) auto

lemma add_task_hits:
  "add_task data (t, i) sm =
   fold add_hit (map (Pair t) (case data_at data i of None \<Rightarrow> [] | Some nodes \<Rightarrow> listed nodes)) sm"
  by (simp add: add_task_def fold_add_node split: option.splits)

lemma parse_chunk_hits:
  "parse_chunk data chunk sm =
   fold add_hit (concat (map (\<lambda>i. map (Pair (chunk ! i))
      (case data_at data i of None \<Rightarrow> [] | Some nodes \<Rightarrow> listed nodes)) [0..<length chunk])) sm"
proof -
  have "parse_chunk data chunk sm =
        fold (\<lambda>i. add_task data (chunk ! i, i)) [0..<length chunk] sm"
    by (simp add: parse_chunk_def zip_upt_nth fold_map o_def)
  also have "\<dots> = fold (\<lambda>i. fold add_hit (map (Pair (chunk ! i))
      (case data_at data i of None \<Rightarrow> [] | Some nodes \<Rightarrow> listed nodes))) [0..<length chunk] sm"
    by (rule fold_cong) (auto simp: add_task_hits fun_eq_iff)
  finally show ?thesis by (simp add: fold_concat_map)
qed

lemma concat_map_Nil: "concat (map (\<lambda>x. []) xs) = []"
  by (induction xs) auto

lemma chunk_positions:
  assumes "CHUNK dvd c" "i < CHUNK"
  shows "(c + i) div CHUNK * CHUNK = c" "(c + i) mod CHUNK = i"
  using assms by (auto simp: CHUNK_def elim!: dvdE)

lemma process_chunk_hits:
  assumes "CHUNK dvd c" "c < length tasks"
  shows "fst (process_chunk gql (take CHUNK (drop c tasks)) st) =
         fold add_hit (hits_from gql tasks c (min (c + CHUNK) (length tasks))) (fst st)"
proof -
  let ?chunk = "take CHUNK (drop c tasks)"
  let ?n = "length ?chunk"
  have len: "?n = min (c + CHUNK) (length tasks) - c" by auto
  have upt: "[c..<min (c + CHUNK) (length tasks)] = map (\<lambda>i. i + c) [0..<?n]"
  proof -
    have "?n + c = min (c + CHUNK) (length tasks)" using assms(2) by (auto simp: min_def)
    then show ?thesis by (simp only: map_add_upt)
  qed
  have nth: "?chunk ! i = tasks ! (i + c)" if "i < ?n" for i
    using that assms(2) by (simp add: add.commute)
  have pos: "(i + c) div CHUNK * CHUNK = c" "(i + c) mod CHUNK = i" if "i < ?n" for i
    using that chunk_positions[OF assms(1), of i] by (simp_all add: add.commute)
  have batch: "map (Pair (tasks ! (i + c))) (seed_batch gql tasks (i + c)) =
      (case gql (map task_mediaId ?chunk) of Inl err \<Rightarrow> [] | Inr None \<Rightarrow> []
       | Inr (Some data) \<Rightarrow> map (Pair (?chunk ! i))
           (case data_at data i of None \<Rightarrow> [] | Some nodes \<Rightarrow> listed nodes))"
    if "i < ?n" for i
    using that pos[OF that] nth[OF that] by (simp add: seed_batch_def split: sum.splits option.splits)
  have "hits_from gql tasks c (min (c + CHUNK) (length tasks)) =
        concat (map (\<lambda>i. case gql (map task_mediaId ?chunk) of Inl err \<Rightarrow> [] | Inr None \<Rightarrow> []
       | Inr (Some data) \<Rightarrow> map (Pair (?chunk ! i))
           (case data_at data i of None \<Rightarrow> [] | Some nodes \<Rightarrow> listed nodes)) [0..<?n])"
    unfolding hits_from_def upt map_map o_def
    by (rule arg_cong[where f=concat], rule map_cong) (use batch in auto)
  then show ?thesis
    by (auto simp: process_chunk_def parse_chunk_hits concat_map_Nil split: sum.splits option.splits)
qed

lemma hits_from_append:
  "a \<le> b \<Longrightarrow> b \<le> c \<Longrightarrow> hits_from gql tasks a c = hits_from gql tasks a b @ hits_from gql tasks b c"
  unfolding hits_from_def using upt_add_eq_append[of a b "c - b"] by simp

lemma fanout_loop_hits:
  "CHUNK dvd c \<Longrightarrow>
   fst (fanout_loop gql tasks c st) = fold add_hit (hits_from gql tasks c (length tasks)) (fst st)"
proof (induction gql tasks c st rule: fanout_loop.induct)
  case (1 gql tasks c st)
  show ?case
  proof (cases "c < length tasks")
    case True
    let ?m = "min (c + CHUNK) (length tasks)"
    have rest: "hits_from gql tasks (c + CHUNK) (length tasks) = hits_from gql tasks ?m (length tasks)"
      by (auto simp: hits_from_def min_def)
    have "fst (fanout_loop gql tasks c st) =
          fst (fanout_loop gql tasks (c + CHUNK) (process_chunk gql (take CHUNK (drop c tasks)) st))"
      using True by (subst fanout_loop.simps) simp
    also have "\<dots> = fold add_hit (hits_from gql tasks (c + CHUNK) (length tasks))
                      (fst (process_chunk gql (take CHUNK (drop c tasks)) st))"
      using "1.IH"[OF True] "1.prems" by simp
    also have "\<dots> = fold add_hit (hits_from gql tasks c ?m @ hits_from gql tasks ?m (length tasks)) (fst st)"
      using process_chunk_hits[OF "1.prems" True] rest by simp
    also have "hits_from gql tasks c ?m @ hits_from gql tasks ?m (length tasks) = hits_from gql tasks c (length tasks)"
      using True by (subst hits_from_append[symmetric]) auto
    finally show ?thesis .
  next
    case False
    then show ?thesis by (subst fanout_loop.simps) (simp add: hits_from_def)
  qed
qed

lemma fanout_hits: "fst (fanout gql tasks) = fold add_hit (seed_hits gql tasks) []"
  by (simp add: fanout_def seed_hits_def fanout_loop_hits)

lemma hits_of_Nil: "hits_of k [] = []"
  by (simp add: hits_of_def)

lemma hits_of_Cons:
  "hits_of k (h # hs) = (if media_id (snd h) = k then fst h # hits_of k hs else hits_of k hs)"
  by (simp add: hits_of_def)

lemma hits_of_append: "hits_of k (xs @ ys) = hits_of k xs @ hits_of k ys"
  by (simp add: hits_of_def)

lemma map_of_add_hit:
  "map_of (add_hit h sm) k =
     (if media_id (snd h) = k
      then Some (case map_of sm k of
                   Some e \<Rightarrow> e\<lparr>baseScore := baseScore e + weight (fst h),
                                reasons := reasons e @ [reason_of (fst h)]\<rparr>
                 | None \<Rightarrow> \<lparr>cand_media = snd h, baseScore = weight (fst h),
                             reasons = [reason_of (fst h)]\<rparr>)
      else map_of sm k)"
  by (auto simp: add_hit_def add_node_def update_conv' split: option.splits)

lemma map_of_fold_add_hit_Some:
  "map_of sm k = Some e \<Longrightarrow>
   map_of (fold add_hit hs sm) k =
     Some (e\<lparr>baseScore := baseScore e + sum_list (map weight (hits_of k hs)),
             reasons := reasons e @ map reason_of (hits_of k hs)\<rparr>)"
proof (induction hs arbitrary: sm e)
  case Nil
  then show ?case by (simp add: hits_of_Nil)
next
  case (Cons h hs)
  show ?case
  proof (cases "media_id (snd h) = k")
    case True
    have "map_of (add_hit h sm) k = Some (e\<lparr>baseScore := baseScore e + weight (fst h),
                                reasons := reasons e @ [reason_of (fst h)]\<rparr>)"
      using True Cons.prems by (simp add: map_of_add_hit)
    from Cons.IH[OF this] True show ?thesis
      by (simp add: hits_of_Cons add.assoc)
  next
    case False
    have "map_of (add_hit h sm) k = Some e"
      using False Cons.prems by (simp add: map_of_add_hit)
    from Cons.IH[OF this] False show ?thesis
      by (simp add: hits_of_Cons)
  qed
qed

lemma map_of_fold_add_hit_None:
  "map_of sm k = None \<Longrightarrow>
   map_of (fold add_hit hs sm) k =
     (case filter (\<lambda>h. media_id (snd h) = k) hs of
        [] \<Rightarrow> None
      | h # rest \<Rightarrow>
          Some \<lparr>cand_media = snd h,
                baseScore = sum_list (map weight (hits_of k hs)),
                reasons = map reason_of (hits_of k hs)\<rparr>)"
proof (induction hs arbitrary: sm)
  case Nil
  then show ?case by simp
next
  case (Cons h hs)
  show ?case
  proof (cases "media_id (snd h) = k")
    case True
    have "map_of (add_hit h sm) k = Some \<lparr>cand_media = snd h, baseScore = weight (fst h),
                             reasons = [reason_of (fst h)]\<rparr>"
      using True Cons.prems by (simp add: map_of_add_hit)
    from map_of_fold_add_hit_Some[OF this, of hs] True show ?thesis
      by (simp add: hits_of_Cons)
  next
    case False
    have "map_of (add_hit h sm) k = None"
      using False Cons.prems by (simp add: map_of_add_hit)
    from Cons.IH[OF this] False show ?thesis
      by (simp add: hits_of_Cons split: list.splits)
  qed
qed

lemma distinct_add_hit: "distinct (map fst sm) \<Longrightarrow> distinct (map fst (add_hit h sm))"
  by (auto simp: add_hit_def add_node_def distinct_update split: option.splits)

lemma distinct_fold_add_hit: "distinct (map fst sm) \<Longrightarrow> distinct (map fst (fold add_hit hs sm))"
  by (induction hs arbitrary: sm) (auto simp: distinct_add_hit)

lemma distinct_fanout: "distinct (map fst (fst (fanout gql tasks)))"
  by (simp add: fanout_hits distinct_fold_add_hit)

lemma map_of_fanout:
  "map_of (fst (fanout gql tasks)) k =
     (case filter (\<lambda>h. media_id (snd h) = k) (seed_hits gql tasks) of
        [] \<Rightarrow> None
      | h # rest \<Rightarrow>
          Some \<lparr>cand_media = snd h,
                baseScore = sum_list (map weight (hits_of k (seed_hits gql tasks))),
                reasons = map reason_of (hits_of k (seed_hits gql tasks))\<rparr>)"
  by (simp add: fanout_hits map_of_fold_add_hit_None)

lemma fanout_entry:
  assumes "(k, c) \<in> set (fst (fanout gql tasks))"
  shows "baseScore c = sum_list (map weight (hits_of k (seed_hits gql tasks)))"
    and "reasons c = map reason_of (hits_of k (seed_hits gql tasks))"
proof -
  have "map_of (fst (fanout gql tasks)) k = Some c"
    using assms distinct_fanout by (simp add: map_of_eq_Some_iff)
  then show "baseScore c = sum_list (map weight (hits_of k (seed_hits gql tasks)))"
    and "reasons c = map reason_of (hits_of k (seed_hits gql tasks))"
    by (auto simp: map_of_fanout split: list.splits)
qed

lemma hit_weight_mset:
  "sum_list (map weight (hits_of k hs)) =
   sum_mset (image_mset (\<lambda>h. weight (fst h)) (filter_mset (\<lambda>h. media_id (snd h) = k) (mset hs)))"
proof -
  have "sum_list (map weight (hits_of k hs)) =
        sum_list (map (\<lambda>h. weight (fst h)) (filter (\<lambda>h. media_id (snd h) = k) hs))"
    by (simp add: hits_of_def o_def)
  also have "\<dots> = sum_mset (mset (map (\<lambda>h. weight (fst h)) (filter (\<lambda>h. media_id (snd h) = k) hs)))"
    by (simp only: sum_mset_sum_list)
  finally show ?thesis by simp
qed

lemma length_filter_distinct_key:
  "distinct (map f xs) \<Longrightarrow> length (filter (\<lambda>x. f x = k) xs) = (if k \<in> f ` set xs then 1 else 0)"
  by (induction xs) auto

lemma hits_of_seed: "hits_of k (map (Pair t) ms) = replicate (length (filter (\<lambda>m. media_id m = k) ms)) t"
  by (induction ms) (auto simp: hits_of_Nil hits_of_Cons)

lemma hit_weight_positions:
  "sum_list (map weight (hits_of k (concat (map (\<lambda>p. map (Pair (tasks ! p)) (seed_batch gql tasks p)) ps)))) =
   (\<Sum>p\<leftarrow>ps. weight (tasks ! p) *
       int (length (filter (\<lambda>m. media_id m = k) (seed_batch gql tasks p))))"
  by (induction ps) (simp_all add: hits_of_Nil hits_of_append hits_of_seed sum_list_replicate algebra_simps)

lemma spec_baseScore_distinct:
  assumes "\<forall>p<length tasks. distinct (map media_id (seed_batch gql tasks p))"
  shows "sum_list (map weight (hits_of k (seed_hits gql tasks))) = spec_baseScore gql tasks k"
proof -
  have "map (\<lambda>p. weight (tasks ! p) *
       int (length (filter (\<lambda>m. media_id m = k) (seed_batch gql tasks p)))) [0..<length tasks] =
       map (\<lambda>p. if k \<in> media_id ` set (seed_batch gql tasks p) then weight (tasks ! p) else 0) [0..<length tasks]"
    by (rule map_cong) (use assms in \<open>simp_all add: length_filter_distinct_key\<close>)
  then show ?thesis
    by (simp only: seed_hits_def hits_from_def hit_weight_positions spec_baseScore_def)
qed

section \<open>The diversity loop\<close>

lemma diversify_loop_mset:
  "diversify_loop xs st = st' \<Longrightarrow>
   mset (fst st') + mset (snd (snd st')) = mset xs + mset (fst st) + mset (snd (snd st))"
proof (induction xs st arbitrary: st' rule: diversify_loop.induct)
  case (1 st)
  then show ?case by simp
next
  case (2 entry rest diversified genreCount deferred)
  then show ?case
    by (auto simp: Let_def split: if_splits)
qed

lemma diversify_loop_inv:
  "count_inv st \<Longrightarrow> count_inv (diversify_loop xs st)"
proof (induction xs st rule: diversify_loop.induct)
  case (1 st)
  then show ?case by simp
next
  case (2 entry rest diversified genreCount deferred)
  let ?g = "primaryGenre (cand_media entry)"
  let ?count = "case genreCount ?g of None \<Rightarrow> 0 | Some n \<Rightarrow> n"
  show ?case
  proof (cases "?count < DIVERSITY_CAP")
    case True
    have "count_inv (diversified @ [entry], genreCount(?g \<mapsto> ?count + 1), deferred)"
      using "2.prems" True by (auto simp: count_inv_def genre_count_def)
    from "2.IH"(1)[OF refl True this] True show ?thesis by (simp add: Let_def)
  next
    case False
    have "count_inv (diversified, genreCount, deferred @ [entry])"
      using "2.prems" by (simp add: count_inv_def)
    from "2.IH"(2)[OF refl False this] False show ?thesis by (simp add: Let_def)
  qed
qed

lemma diversify_loop_subseq:
  "\<exists>d f. fst (diversify_loop xs st) = fst st @ d
       \<and> snd (snd (diversify_loop xs st)) = snd (snd st) @ f
       \<and> subseq d xs \<and> subseq f xs"
proof (induction xs st rule: diversify_loop.induct)
  case (1 st)
  then show ?case by simp
next
  case (2 entry rest diversified genreCount deferred)
  let ?g = "primaryGenre (cand_media entry)"
  let ?count = "case genreCount ?g of None \<Rightarrow> 0 | Some n \<Rightarrow> n"
  show ?case
  proof (cases "?count < DIVERSITY_CAP")
    case True
    from "2.IH"(1)[OF refl True] obtain d f where
      "fst (diversify_loop rest (diversified @ [entry], genreCount(?g \<mapsto> ?count + 1), deferred))
         = (diversified @ [entry]) @ d"
      "snd (snd (diversify_loop rest (diversified @ [entry], genreCount(?g \<mapsto> ?count + 1), deferred)))
         = deferred @ f"
      "subseq d rest" "subseq f rest"
      by auto
    then have "fst (diversify_loop (entry # rest) (diversified, genreCount, deferred))
                 = fst (diversified, genreCount, deferred) @ (entry # d)
       \<and> snd (snd (diversify_loop (entry # rest) (diversified, genreCount, deferred)))
                 = snd (snd (diversified, genreCount, deferred)) @ f
       \<and> subseq (entry # d) (entry # rest) \<and> subseq f (entry # rest)"
      using True by (auto simp: Let_def intro: list_emb_Cons)
    then show ?thesis by blast
  next
    case False
    from "2.IH"(2)[OF refl False] obtain d f where
      "fst (diversify_loop rest (diversified, genreCount, deferred @ [entry])) = diversified @ d"
      "snd (snd (diversify_loop rest (diversified, genreCount, deferred @ [entry])))
         = (deferred @ [entry]) @ f"
      "subseq d rest" "subseq f rest"
      by auto
    then have "fst (diversify_loop (entry # rest) (diversified, genreCount, deferred))
                 = fst (diversified, genreCount, deferred) @ d
       \<and> snd (snd (diversify_loop (entry # rest) (diversified, genreCount, deferred)))
                 = snd (snd (diversified, genreCount, deferred)) @ (entry # f)
       \<and> subseq d (entry # rest) \<and> subseq (entry # f) (entry # rest)"
      using False by (auto simp: Let_def intro: list_emb_Cons)
    then show ?thesis by blast
  qed
qed

lemma count_inv_init: "count_inv ([], Map.empty, [])"
  by (simp add: count_inv_def genre_count_def)

lemma mset_finalResults: "mset (finalResults xs) = mset xs"
  using diversify_loop_mset[OF refl, of xs "([], Map.empty, [])"]
  by (simp add: finalResults_def diversified_of_def deferred_of_def)

lemma genre_count_diversified: "genre_count g (diversified_of xs) \<le> DIVERSITY_CAP"
  using diversify_loop_inv[OF count_inv_init, of xs]
  by (simp add: count_inv_def diversified_of_def)

lemma subseq_diversified: "subseq (diversified_of xs) xs"
  using diversify_loop_subseq[of xs "([], Map.empty, [])"]
  by (auto simp: diversified_of_def)

lemma subseq_deferred: "subseq (deferred_of xs) xs"
  using diversify_loop_subseq[of xs "([], Map.empty, [])"]
  by (auto simp: deferred_of_def)

lemma length_filter_mono:
  "(\<And>x. x \<in> set xs \<Longrightarrow> P x \<Longrightarrow> Q x) \<Longrightarrow> length (filter P xs) \<le> length (filter Q xs)"
  by (induction xs) auto

lemma spec_primaryGenre_bucket:
  "spec_primaryGenre m = g \<Longrightarrow> primaryGenre m = (if g = [] then ''Unknown'' else g)"
  by (auto simp: spec_primaryGenre_def primaryGenre_def split: option.splits list.splits)

lemma spec_genre_count_diversified:
  "length (filter (\<lambda>e. spec_primaryGenre (cand_media e) = g) (diversified_of xs)) \<le> DIVERSITY_CAP"
proof -
  have "length (filter (\<lambda>e. spec_primaryGenre (cand_media e) = g) (diversified_of xs))
        \<le> genre_count (if g = [] then ''Unknown'' else g) (diversified_of xs)"
    unfolding genre_count_def by (rule length_filter_mono) (simp add: spec_primaryGenre_bucket)
  then show ?thesis using genre_count_diversified le_trans by blast
qed

lemma sorted_wrt_subseq: "subseq ys xs \<Longrightarrow> sorted_wrt R xs \<Longrightarrow> sorted_wrt R ys"
  by (induction rule: list_emb.induct) (auto dest: list_emb_set)

section \<open>From the score map to the result list\<close>

lemma set_finalResults: "set (finalResults xs) = set xs"
  using mset_finalResults[of xs] by (rule mset_eq_setD)

lemma fanout_key:
  assumes "(k, c) \<in> set (fst (fanout gql tasks))"
  shows "media_id (cand_media c) = k"
proof -
  have m: "map_of (fst (fanout gql tasks)) k = Some c"
    using assms distinct_fanout by (simp add: map_of_eq_Some_iff)
  show ?thesis
  proof (cases "filter (\<lambda>h. media_id (snd h) = k) (seed_hits gql tasks)")
    case Nil
    with m show ?thesis by (simp add: map_of_fanout)
  next
    case (Cons h rest)
    then have "h \<in> set (filter (\<lambda>h. media_id (snd h) = k) (seed_hits gql tasks))" by simp
    then have "media_id (snd h) = k" by simp
    with m Cons show ?thesis by (auto simp: map_of_fanout)
  qed
qed

lemma refine_fields:
  "cand_media (refine tm tg e) = cand_media e"
  "baseScore (refine tm tg e) = baseScore e"
  "reasons (refine tm tg e) = reasons e"
  "isPlanning (refine tm tg e) = isPlanning e"
  by (simp_all add: refine_def Let_def)

lemma set_pipeline:
  "set (pipeline favs ul gql) =
   refine (userTagMap ul) (topGenres ul) `
     set (filtered_of (seenIds ul) (planningIds ul) (fst (fanout gql (tasks_of favs ul))))"
  by (simp add: pipeline_def Let_def set_finalResults)

lemma in_seenIds: "k \<in> seenIds ul \<longleftrightarrow> (\<exists>e\<in>set ul. mediaId e = k \<and> status e \<noteq> Some ''PLANNING'')"
  by (auto simp: seenIds_def)

lemma in_planningIds: "k \<in> planningIds ul \<longleftrightarrow> (\<exists>e\<in>set ul. mediaId e = k \<and> status e = Some ''PLANNING'')"
  by (auto simp: planningIds_def)

lemma in_filtered_of:
  "x \<in> set (filtered_of seen planning sm) \<longleftrightarrow>
   (\<exists>k c. (k, c) \<in> set sm \<and> k \<notin> seen \<and>
      x = \<lparr>cand_media = cand_media c, baseScore = baseScore c, reasons = reasons c,
           isPlanning = (k \<in> planning)\<rparr>)"
  by (force simp: filtered_of_def)

lemma pipeline_entry:
  assumes "r \<in> set (pipeline favs ul gql)"
  shows "\<exists>c. (media_id (cand_media r), c) \<in> set (fst (fanout gql (tasks_of favs ul)))
           \<and> media_id (cand_media r) \<notin> seenIds ul
           \<and> cand_media r = cand_media c \<and> baseScore r = baseScore c \<and> reasons r = reasons c
           \<and> isPlanning r = (media_id (cand_media r) \<in> planningIds ul)"
proof -
  from assms obtain x where x: "x \<in> set (filtered_of (seenIds ul) (planningIds ul) (fst (fanout gql (tasks_of favs ul))))"
    and r: "r = refine (userTagMap ul) (topGenres ul) x"
    by (auto simp: set_pipeline)
  from x obtain k c where kc: "(k, c) \<in> set (fst (fanout gql (tasks_of favs ul)))" "k \<notin> seenIds ul"
    and xe: "x = \<lparr>cand_media = cand_media c, baseScore = baseScore c, reasons = reasons c,
           isPlanning = (k \<in> planningIds ul)\<rparr>"
    by (auto simp: in_filtered_of)
  have "media_id (cand_media r) = k"
    using fanout_key[OF kc(1)] by (simp add: r xe refine_fields)
  then show ?thesis using kc by (auto simp: r xe refine_fields)
qed

lemma pipeline_retains:
  assumes "(k, c) \<in> set (fst (fanout gql (tasks_of favs ul)))" "k \<notin> seenIds ul"
  shows "\<exists>r\<in>set (pipeline favs ul gql). media_id (cand_media r) = k
           \<and> isPlanning r = (k \<in> planningIds ul)"
proof -
  let ?x = "\<lparr>cand_media = cand_media c, baseScore = baseScore c, reasons = reasons c,
           isPlanning = (k \<in> planningIds ul)\<rparr>"
  have "?x \<in> set (filtered_of (seenIds ul) (planningIds ul) (fst (fanout gql (tasks_of favs ul))))"
    using assms by (auto simp: in_filtered_of)
  then have "refine (userTagMap ul) (topGenres ul) ?x \<in> set (pipeline favs ul gql)"
    by (simp add: set_pipeline)
  moreover have "media_id (cand_media (refine (userTagMap ul) (topGenres ul) ?x)) = k"
    using fanout_key[OF assms(1)] by (simp add: refine_fields)
  moreover have "isPlanning (refine (userTagMap ul) (topGenres ul) ?x) = (k \<in> planningIds ul)"
    by (simp add: refine_fields)
  ultimately show ?thesis by blast
qed

section \<open>Rounding, bonuses and common tags\<close>

lemma Math_round_div:
  "0 < c \<Longrightarrow> Math_round (of_int t / of_nat c) = (2 * t + int c) div (2 * int c)"
proof -
  assume c: "0 < c"
  have "(of_int t / of_nat c + 1 / 2 :: rat) = of_int (2 * t + int c) / of_int (2 * int c)"
    using c by (simp add: field_simps)
  then show ?thesis
    unfolding Math_round_def by (simp only: floor_divide_of_int_eq)
qed

lemma toFixed1_tenths: "toFixed1 (of_int n / 10) = of_int n / 10"
proof -
  have a: "\<lfloor>(of_int n :: rat) + 1 / 2\<rfloor> = n" by linarith
  have b: "\<lfloor>(of_int (- n) :: rat) + 1 / 2\<rfloor> = - n" by linarith
  show ?thesis
    using a b by (simp add: toFixed1_def)
qed

lemma score_tenths:
  "(of_int b + of_nat m * TAG_BONUS + of_nat g * GENRE_BONUS :: rat) =
   of_int (10 * b + 5 * int m + 3 * int g) / 10"
  by (simp add: TAG_BONUS_def GENRE_BONUS_def field_simps)

lemma bonus_tenths:
  "(of_nat m * TAG_BONUS + of_nat g * GENRE_BONUS :: rat) = of_int (5 * int m + 3 * int g) / 10"
  by (simp add: TAG_BONUS_def GENRE_BONUS_def field_simps)

lemma toFixed1_score:
  "toFixed1 (of_int b + of_nat m * TAG_BONUS + of_nat g * GENRE_BONUS) =
   of_int b + of_nat m * TAG_BONUS + of_nat g * GENRE_BONUS"
  by (simp only: score_tenths toFixed1_tenths)

lemma toFixed1_bonus:
  "toFixed1 (of_nat m * TAG_BONUS + of_nat g * GENRE_BONUS) =
   of_nat m * TAG_BONUS + of_nat g * GENRE_BONUS"
  by (simp only: bonus_tenths toFixed1_tenths)

lemma length_common_of:
  "length (common_of tm ts) = length (filter (\<lambda>t. name t \<in> fst ` set tm) ts)"
proof (induction ts)
  case Nil
  then show ?case by (simp add: common_of_def)
next
  case (Cons t ts)
  have "map_of tm (name t) = None \<longleftrightarrow> name t \<notin> fst ` set tm"
    by (simp add: map_of_eq_None_iff)
  with Cons show ?case
    by (auto simp: common_of_def split: option.splits)
qed

lemma common_of_Nil: "common_of tm [] = []"
  by (simp add: common_of_def)

lemma common_of_Cons:
  "common_of tm (t # ts) =
     (case map_of tm (name t) of
        None \<Rightarrow> []
      | Some u \<Rightarrow>
          [\<lparr>common_name = name t,
            strength = Math_round (of_int (totalRank u) / of_nat (occurrences u))\<rparr>])
     @ common_of tm ts"
  by (simp add: common_of_def)

lemma common_of_strength:
  assumes "c \<in> set (common_of tm ts)"
  shows "\<exists>u. map_of tm (common_name c) = Some u
      \<and> strength c = Math_round (of_int (totalRank u) / of_nat (occurrences u))"
  using assms
proof (induction ts)
  case Nil
  then show ?case by (simp add: common_of_Nil)
next
  case (Cons t ts)
  show ?case
  proof (cases "map_of tm (name t)")
    case None
    with Cons show ?thesis by (simp add: common_of_Cons)
  next
    case (Some u)
    show ?thesis
    proof (cases "c \<in> set (common_of tm ts)")
      case True
      then show ?thesis by (rule Cons.IH)
    next
      case False
      with Cons.prems Some have
        "c = \<lparr>common_name = name t,
              strength = Math_round (of_int (totalRank u) / of_nat (occurrences u))\<rparr>"
        by (simp add: common_of_Cons)
      with Some show ?thesis by simp
    qed
  qed
qed

lemma refine_commonTags:
  "commonTags (refine tm tg e) =
   take 5 (sort_key (\<lambda>c. - strength c) (common_of tm (tags_of (cand_media e))))"
  by (simp add: refine_def Let_def tags_of_def)

lemma refine_score:
  "score (refine tm tg e) =
     of_int (baseScore e)
     + of_nat (min (length (shared_tags tm (cand_media e))) 3) * TAG_BONUS
     + of_nat (min (length (shared_genres tg (cand_media e))) 3) * GENRE_BONUS"
  by (simp add: refine_def Let_def toFixed1_score length_common_of shared_tags_def
      shared_genres_def tags_of_def genres_of_def)

lemma refine_tagBonus:
  "tagBonus (refine tm tg e) =
     of_nat (min (length (shared_tags tm (cand_media e))) 3) * TAG_BONUS
     + of_nat (min (length (shared_genres tg (cand_media e))) 3) * GENRE_BONUS"
  by (simp add: refine_def Let_def toFixed1_bonus length_common_of shared_tags_def
      shared_genres_def tags_of_def genres_of_def)

lemma sorted_desc_sort_key:
  "sorted_wrt (\<lambda>a b. strength b \<le> strength a) (sort_key (\<lambda>c. - strength c) cs)"
proof -
  have "sorted (map (\<lambda>c. - strength c) (sort_key (\<lambda>c. - strength c) cs))"
    by (rule sorted_sort_key)
  then show ?thesis by (simp add: sorted_map)
qed

lemma stats_pos_update:
  "stats_pos m \<Longrightarrow> 0 < occurrences v \<Longrightarrow> stats_pos (AList.update k v m)"
  by (induction m) (auto simp: stats_pos_def)

lemma add_tag_pos: "stats_pos m \<Longrightarrow> stats_pos (add_tag t m)"
  by (cases "map_of m (name t)") (simp_all add: add_tag_def stats_pos_update)

lemma fold_add_tag_pos: "stats_pos m \<Longrightarrow> stats_pos (fold add_tag ts m)"
proof (induction ts arbitrary: m)
  case Nil
  then show ?case by simp
next
  case (Cons t ts)
  from Cons.IH[OF add_tag_pos[OF Cons.prems]] show ?case by simp
qed

lemma userTagMap_pos_aux:
  "stats_pos m \<Longrightarrow> stats_pos (fold (\<lambda>entry. fold add_tag (entry_tags entry)) ul m)"
proof (induction ul arbitrary: m)
  case Nil
  then show ?case by simp
next
  case (Cons e ul)
  from Cons.IH[OF fold_add_tag_pos[OF Cons.prems]] show ?case by simp
qed

lemma userTagMap_pos:
  assumes "map_of (userTagMap ul) n = Some u"
  shows "0 < occurrences u"
proof -
  have "stats_pos (userTagMap ul)"
    unfolding userTagMap_def by (rule userTagMap_pos_aux) (simp add: stats_pos_def)
  moreover have "(n, u) \<in> set (userTagMap ul)"
    by (rule map_of_SomeD[OF assms])
  ultimately show ?thesis
    by (auto simp: stats_pos_def list_all_iff)
qed

section \<open>The seeds\<close>

lemma tasks_of_eq:
  "tasks_of favs ul =
     map fav_seed (take 15 favs)
     @ map rated_seed
         (take 10 (filter (\<lambda>e. mediaId e \<notin> fav_id ` set favs) (take 25 (filter eligible ul))))"
  by (simp add: tasks_of_def topOnly_def topRated_def favouriteSet_def fav_seed_def rated_seed_def
      eligible_def[abs_def] MAX_FAV_SOURCES_def MAX_TOP_SOURCES_def WEIGHT_FAVOURITE_def
      WEIGHT_TOP_RATED_def)

lemma topOnly_eq:
  "topOnly favs ul =
     take 10 (filter (\<lambda>e. mediaId e \<notin> fav_id ` set favs) (take 25 (filter eligible ul)))"
  by (simp add: topOnly_def topRated_def favouriteSet_def eligible_def[abs_def]
      MAX_FAV_SOURCES_def MAX_TOP_SOURCES_def)

lemma take_filter_take_prefix:
  "prefix (take n (filter P (take m xs))) (take n (filter P xs))"
proof -
  have "filter P xs = filter P (take m xs) @ filter P (drop m xs)"
    by (metis append_take_drop_id filter_append)
  then have "take n (filter P xs) =
      take n (filter P (take m xs)) @ take (n - length (filter P (take m xs))) (filter P (drop m xs))"
    by simp
  then show ?thesis by (simp add: prefix_def)
qed

lemma take_filter_take_eq:
  assumes "length (filter (\<lambda>x. \<not> P x) (take m xs)) + n \<le> m"
  shows "take n (filter P (take m xs)) = take n (filter P xs)"
proof (cases "length xs \<le> m")
  case True
  then show ?thesis by simp
next
  case False
  then have "length (take m xs) = m" by simp
  moreover have "length (filter P (take m xs)) + length (filter (\<lambda>x. \<not> P x) (take m xs)) = length (take m xs)"
    by (rule sum_length_filter_compl)
  ultimately have "n \<le> length (filter P (take m xs))" using assms by linarith
  moreover have "filter P xs = filter P (take m xs) @ filter P (drop m xs)"
    by (metis append_take_drop_id filter_append)
  ultimately show ?thesis by simp
qed

lemma fetched_sorted:
  assumes "fetchUserList (Inr (Some mediaLists)) = Inr ul"
  shows "ul = sort_key (\<lambda>e. - entry_score e) (fetched_entries mediaLists)"
    and "sorted_wrt (\<lambda>a b. entry_score b \<le> entry_score a) ul"
    and "mset ul = mset (fetched_entries mediaLists)"
    and "filter (\<lambda>e. entry_score e = s) ul = filter (\<lambda>e. entry_score e = s) (fetched_entries mediaLists)"
proof -
  show u: "ul = sort_key (\<lambda>e. - entry_score e) (fetched_entries mediaLists)"
    using assms by (simp add: fetchUserList_def fetched_entries_def)
  have "sorted (map (\<lambda>e. - entry_score e) ul)"
    unfolding u by (rule sorted_sort_key)
  then show "sorted_wrt (\<lambda>a b. entry_score b \<le> entry_score a) ul"
    by (simp add: sorted_map)
  show "mset ul = mset (fetched_entries mediaLists)"
    by (simp add: u)
  have "filter (\<lambda>e. - entry_score e = - s) ul = filter (\<lambda>e. - entry_score e = - s) (fetched_entries mediaLists)"
    unfolding u by (rule sort_key_stable)
  then show "filter (\<lambda>e. entry_score e = s) ul = filter (\<lambda>e. entry_score e = s) (fetched_entries mediaLists)"
    by simp
qed

lemma tasks_of_topOnly:
  "tasks_of favs ul = map fav_seed (take 15 favs) @ map rated_seed (topOnly favs ul)"
  by (simp only: tasks_of_eq topOnly_eq)

lemma topOnly_prefix: "prefix (topOnly favs ul) (spec_rated_seeds favs ul)"
  unfolding topOnly_eq spec_rated_seeds_def by (rule take_filter_take_prefix)

text \<open>
  The seeds of the code are those of the specification when at most 15 of the
  first 25 eligible entries are favourites.
\<close>

lemma tasks_of_spec_tasks:
  assumes "length (filter (\<lambda>e. mediaId e \<in> fav_id ` set favs) (take 25 (filter eligible ul))) \<le> 15"
  shows "tasks_of favs ul = spec_tasks favs ul"
proof -
  from assms have
    "length (filter (\<lambda>e. \<not> mediaId e \<notin> fav_id ` set favs) (take 25 (filter eligible ul))) + 10 \<le> 25"
    by simp
  from take_filter_take_eq[OF this] show ?thesis
    by (simp only: tasks_of_eq spec_tasks_def spec_rated_seeds_def)
qed


section \<open>The retry loop of gqlRequest\<close>

lemma parseInt_examples:
  "parseInt ''0'' = Some 0" "parseInt ''30'' = Some 30" "parseInt ''Wed, 21 Oct 2015'' = None"
  by (simp_all add: parseInt_def isSpace_def isDigit_def digitValue_def Let_def)

lemma gqlRequest_limited:
  assumes "http_status (fetch attempt) = 429"
  shows "gqlRequest fetch attempt =
     (if MAX_RETRIES \<le> attempt
      then \<lparr>outcome = Inl TooManyRequests, slept = [], loggedOut = False\<rparr>
      else (gqlRequest fetch (attempt + 1))
             \<lparr>slept := backoff (fetch attempt) attempt # slept (gqlRequest fetch (attempt + 1))\<rparr>)"
  using assms by (subst gqlRequest.simps) (simp add: Let_def)

lemma gqlRequest_other:
  "http_status (fetch attempt) \<noteq> 429 \<Longrightarrow> gqlRequest fetch attempt = after_fetch (fetch attempt)"
  by (subst gqlRequest.simps) simp

lemma slept_after_fetch: "slept (after_fetch res) = []"
  by (simp add: after_fetch_def split: option.splits list.splits)

lemma length_slept: "length (slept (gqlRequest fetch attempt)) \<le> MAX_RETRIES - attempt"
proof (induction fetch attempt rule: gqlRequest.induct)
  case (1 fetch attempt)
  show ?case
  proof (cases "http_status (fetch attempt) = 429")
    case True
    show ?thesis
    proof (cases "MAX_RETRIES \<le> attempt")
      case True
      with \<open>http_status (fetch attempt) = 429\<close> show ?thesis
        by (simp add: gqlRequest_limited)
    next
      case False
      from "1.IH"[OF True False] False True show ?thesis
        by (simp add: gqlRequest_limited)
    qed
  next
    case False
    then show ?thesis by (simp add: gqlRequest_other slept_after_fetch)
  qed
qed

lemma all_limited:
  "(\<And>a. attempt \<le> a \<Longrightarrow> a \<le> MAX_RETRIES \<Longrightarrow> http_status (fetch a) = 429) \<Longrightarrow>
   attempt \<le> MAX_RETRIES \<Longrightarrow>
   outcome (gqlRequest fetch attempt) = Inl TooManyRequests
   \<and> slept (gqlRequest fetch attempt) = map (\<lambda>a. backoff (fetch a) a) [attempt..<MAX_RETRIES]"
proof (induction fetch attempt rule: gqlRequest.induct)
  case (1 fetch attempt)
  have l: "http_status (fetch attempt) = 429" using "1.prems" by simp
  show ?case
  proof (cases "MAX_RETRIES \<le> attempt")
    case True
    with l show ?thesis by (simp add: gqlRequest_limited)
  next
    case False
    have "outcome (gqlRequest fetch (attempt + 1)) = Inl TooManyRequests
      \<and> slept (gqlRequest fetch (attempt + 1)) = map (\<lambda>a. backoff (fetch a) a) [attempt + 1..<MAX_RETRIES]"
      using "1.prems" False by (intro "1.IH"[OF l False]) auto
    with l False show ?thesis
      by (simp add: gqlRequest_limited upt_conv_Cons)
  qed
qed

section \<open>Failing batches and the requests of a run\<close>

lemma process_chunk_failed:
  "gql (map task_mediaId chunk) = Inl err \<Longrightarrow> process_chunk gql chunk st = (fst st, snd st @ [err])"
  by (simp add: process_chunk_def)

lemma fanout_loop_failed:
  assumes "c < length tasks" "gql (map task_mediaId (take CHUNK (drop c tasks))) = Inl err"
  shows "fanout_loop gql tasks c st = fanout_loop gql tasks (c + CHUNK) (fst st, snd st @ [err])"
  using assms by (subst fanout_loop.simps) (simp add: process_chunk_failed)

lemma compute_completes:
  "fetchUserList (userListData r) = Inr ul \<Longrightarrow>
   fetchAllFavourites (favouritesPage r) = Some (Inr favs) \<Longrightarrow>
   computeRecommendations first r = Some (Inr (pipeline favs ul (recommendations r)))"
  by (simp add: computeRecommendations_def)

lemma compute_aborts_favourites:
  "fetchAllFavourites (favouritesPage r) = Some (Inl e) \<Longrightarrow>
   \<exists>e'. computeRecommendations first r = Some (Inl e')"
  by (simp add: computeRecommendations_def split: sum.splits arrival.splits)

lemma compute_aborts_list:
  "fetchUserList (userListData r) = Inl e \<Longrightarrow> \<exists>e'. computeRecommendations first r = Some (Inl e')"
  by (auto simp: computeRecommendations_def split: sum.splits option.splits arrival.splits)

lemma batch_index:
  "j * CHUNK < n \<Longrightarrow> j < (n + CHUNK - 1) div CHUNK"
  unfolding CHUNK_def
  using less_eq_div_iff_mult_less_eq[of 12 "Suc j" "n + 11"] by simp

lemma requested_batchesI:
  assumes "CHUNK dvd c" "c < length tasks"
  shows "map task_mediaId (take CHUNK (drop c tasks)) \<in> set (requested_batches tasks)"
proof -
  from assms(1) obtain j where "c = CHUNK * j" by (rule dvdE)
  then have j: "c = j * CHUNK" by (simp add: mult.commute)
  from assms(2) have "j * CHUNK < length tasks" by (simp add: j)
  then have "j < (length tasks + CHUNK - 1) div CHUNK" by (rule batch_index)
  then have "j \<in> set [0..<(length tasks + CHUNK - 1) div CHUNK]" by simp
  then show ?thesis unfolding requested_batches_def j by (simp only: set_map) (rule imageI)
qed

lemma fanout_loop_agree:
  "\<forall>ids\<in>set (requested_batches tasks). gql' ids = gql ids \<Longrightarrow> CHUNK dvd c \<Longrightarrow>
   fanout_loop gql' tasks c st = fanout_loop gql tasks c st"
proof (induction gql tasks c st rule: fanout_loop.induct)
  case (1 gql tasks c st)
  show ?case
  proof (cases "c < length tasks")
    case True
    have same: "gql' (map task_mediaId (take CHUNK (drop c tasks)))
              = gql (map task_mediaId (take CHUNK (drop c tasks)))"
      using requested_batchesI[OF "1.prems"(2) True] "1.prems"(1) by blast
    then have p: "process_chunk gql' (take CHUNK (drop c tasks)) st
                = process_chunk gql (take CHUNK (drop c tasks)) st"
      by (simp add: process_chunk_def)
    have "fanout_loop gql' tasks (c + CHUNK) (process_chunk gql (take CHUNK (drop c tasks)) st)
        = fanout_loop gql tasks (c + CHUNK) (process_chunk gql (take CHUNK (drop c tasks)) st)"
      using "1.prems" by (intro "1.IH"[OF True]) auto
    with True p show ?thesis
      by (subst fanout_loop.simps, subst (2) fanout_loop.simps) simp
  next
    case False
    then show ?thesis by (subst fanout_loop.simps, subst (2) fanout_loop.simps) simp
  qed
qed

lemma pipeline_agree:
  assumes "\<forall>ids\<in>set (requested_batches (tasks_of favs ul)). gql' ids = gql ids"
  shows "pipeline favs ul gql' = pipeline favs ul gql"
proof -
  have "fanout gql' (tasks_of favs ul) = fanout gql (tasks_of favs ul)"
    unfolding fanout_def by (rule fanout_loop_agree[OF assms]) simp
  then show ?thesis by (simp add: pipeline_def)
qed

lemma compute_agree:
  assumes "favouritesPage r' = favouritesPage r"
    and "userListData r' = userListData r"
    and "\<And>favs ul. fetchAllFavourites (favouritesPage r) = Some (Inr favs) \<Longrightarrow>
           fetchUserList (userListData r) = Inr ul \<Longrightarrow>
           \<forall>ids\<in>set (requested_batches (tasks_of favs ul)).
             recommendations r' ids = recommendations r ids"
  shows "computeRecommendations first r' = computeRecommendations first r"
proof (cases "fetchUserList (userListData r)")
  case (Inl e)
  then show ?thesis by (simp add: computeRecommendations_def assms(1,2))
next
  case (Inr ul)
  show ?thesis
  proof (cases "fetchAllFavourites (favouritesPage r)")
    case None
    with Inr show ?thesis by (simp add: computeRecommendations_def assms(1,2))
  next
    case (Some f)
    show ?thesis
    proof (cases f)
      case (Inl e)
      with Some Inr show ?thesis by (simp add: computeRecommendations_def assms(1,2))
    next
      case (Inr favs)
      with Some have "fetchAllFavourites (favouritesPage r) = Some (Inr favs)" by simp
      from assms(3)[OF this \<open>fetchUserList (userListData r) = Inr ul\<close>]
      have "pipeline favs ul (recommendations r') = pipeline favs ul (recommendations r)"
        by (rule pipeline_agree)
      with Some Inr \<open>fetchUserList (userListData r) = Inr ul\<close> show ?thesis
        by (simp add: computeRecommendations_def assms(1,2))
    qed
  qed
qed

text \<open>
  The order of arrival decides nothing but the error of a run in which both
  fetches of step 1 fail.
\<close>

lemma compute_both_fail:
  "fetchAllFavourites (favouritesPage r) = Some (Inl favErr) \<Longrightarrow>
   fetchUserList (userListData r) = Inl listErr \<Longrightarrow>
   computeRecommendations first r =
     Some (Inl (case first of FavouritesFirst \<Rightarrow> favErr | ListFirst \<Rightarrow> listErr))"
  by (simp add: computeRecommendations_def split: arrival.splits)

lemma compute_arrival:
  "(\<forall>favErr listErr. \<not> (fetchAllFavourites (favouritesPage r) = Some (Inl favErr)
                          \<and> fetchUserList (userListData r) = Inl listErr)) \<Longrightarrow>
   computeRecommendations first' r = computeRecommendations first r"
  by (auto simp: computeRecommendations_def split: sum.splits option.splits arrival.splits)


section \<open>The examples, evaluated\<close>

lemmas fanout_eval =
  fanout_def fanout_loop.simps process_chunk_def parse_chunk_def add_task_def add_node_def
  data_at_def CHUNK_def reason_of_def

lemmas hits_eval =
  seed_hits_def hits_from_def seed_batch_def hits_of_def data_at_def CHUNK_def

lemma ex_fanout:
  "fst (fanout ex_gql ex_tasks) =
     [(10, \<lparr>cand_media = ex_media 10 ''Action'', baseScore = 4,
            reasons = [reason_of (ex_seed 1 2 Favori), reason_of (ex_seed 2 2 Favori)]\<rparr>),
      (11, \<lparr>cand_media = ex_media 11 ''Drama'', baseScore = 3,
            reasons = [reason_of (ex_seed 2 2 Favori), reason_of (ex_seed 3 1 TopNote)]\<rparr>)]"
  by (simp add: fanout_eval ex_tasks_def ex_gql_def ex_media_def ex_seed_def)

lemma ex_fanout_rev:
  "fst (fanout ex_gql (rev ex_tasks)) =
     [(11, \<lparr>cand_media = ex_media 11 ''Drama'', baseScore = 3,
            reasons = [reason_of (ex_seed 3 1 TopNote), reason_of (ex_seed 2 2 Favori)]\<rparr>),
      (10, \<lparr>cand_media = ex_media 10 ''Action'', baseScore = 4,
            reasons = [reason_of (ex_seed 2 2 Favori), reason_of (ex_seed 1 2 Favori)]\<rparr>)]"
  by (simp add: fanout_eval ex_tasks_def ex_gql_def ex_media_def ex_seed_def)

lemma ex_hits:
  "seed_hits ex_gql ex_tasks =
     [(ex_seed 1 2 Favori, ex_media 10 ''Action''), (ex_seed 2 2 Favori, ex_media 10 ''Action''),
      (ex_seed 2 2 Favori, ex_media 11 ''Drama''), (ex_seed 3 1 TopNote, ex_media 11 ''Drama'')]"
  by (simp add: hits_eval ex_tasks_def ex_gql_def ex_seed_def ex_media_def upt_rec)

lemma ex_hits_rev:
  "seed_hits ex_gql (rev ex_tasks) =
     [(ex_seed 3 1 TopNote, ex_media 11 ''Drama''), (ex_seed 2 2 Favori, ex_media 10 ''Action''),
      (ex_seed 2 2 Favori, ex_media 11 ''Drama''), (ex_seed 1 2 Favori, ex_media 10 ''Action'')]"
  by (simp add: hits_eval ex_tasks_def ex_gql_def ex_seed_def ex_media_def upt_rec)

lemma ex_mset: "mset (seed_hits ex_gql (rev ex_tasks)) = mset (seed_hits ex_gql ex_tasks)"
  by (simp add: ex_hits ex_hits_rev)

lemma ex_distinct: "\<forall>p<length ex_tasks. distinct (map media_id (seed_batch ex_gql ex_tasks p))"
  by (simp add: hits_eval ex_tasks_def ex_gql_def ex_media_def All_less_Suc numeral_3_eq_3)

lemma dup_fanout:
  "fst (fanout dup_gql [ex_seed 1 2 Favori]) =
     [(10, \<lparr>cand_media = ex_media 10 ''Action'', baseScore = 4,
            reasons = [reason_of (ex_seed 1 2 Favori), reason_of (ex_seed 1 2 Favori)]\<rparr>)]"
  by (simp add: fanout_eval dup_gql_def ex_media_def ex_seed_def)

lemma dup_spec: "spec_baseScore dup_gql [ex_seed 1 2 Favori] 10 = 2"
  by (simp add: spec_baseScore_def hits_eval dup_gql_def ex_media_def ex_seed_def)

lemma digits_3: "toString 3 = ''3''"
  by (simp add: toString_def digits.simps)

lemma run_fetch_favs: "fetchAllFavourites run_favourites = Some (Inr run_favs)"
  by (simp add: fetchAllFavourites_def favourites_loop.simps run_favourites_def run_favs_def
      fav_of_node_def js_or_def truthy_def run_title_def digits_3)

lemma run_fetch_list: "fetchUserList (Inr (Some run_lists)) = Inr run_userList"
  by (simp add: fetchUserList_def run_lists_def run_userList_def entry_of_def run_entry_def
      run_title_def js_or_def truthy_def)

lemma run_tasks_of: "tasks_of run_favs run_userList = run_tasks"
  by (simp add: tasks_of_def topOnly_def topRated_def favouriteSet_def run_favs_def
      run_userList_def run_tasks_def MAX_FAV_SOURCES_def MAX_TOP_SOURCES_def
      WEIGHT_FAVOURITE_def WEIGHT_TOP_RATED_def)

lemma run_profile:
  "userTagMap run_userList =
     [(''Mecha'', \<lparr>totalRank = 141, occurrences = 2\<rparr>),
      (''Space'', \<lparr>totalRank = 70, occurrences = 1\<rparr>)]"
  "topGenres run_userList = {''Action'', ''Drama''}"
  "seenIds run_userList = {1, 4, 20}"
  "planningIds run_userList = {21}"
  by (auto simp add: userTagMap_def add_tag_def topGenres_def userGenreMap_def add_genre_def
      seenIds_def planningIds_def run_userList_def)

lemma Math_round_numeral:
  "Math_round (numeral a / numeral b) = (2 * numeral a + numeral b) div (2 * numeral b)"
  "Math_round (numeral a) = numeral a"
  using Math_round_div[of "numeral b" "numeral a"] Math_round_div[of 1 "numeral a"]
  by simp_all

lemma run_scoreMap:
  "fst (fanout run_recommendations run_tasks) =
     [(100, \<lparr>cand_media = run_media 100 [''Action'', ''Comedy'']
                         [\<lparr>name = ''Mecha'', rank = 50\<rparr>, \<lparr>name = ''Idol'', rank = 40\<rparr>,
                          \<lparr>name = ''Space'', rank = 30\<rparr>],
             baseScore = 4,
             reasons = [\<lparr>reason_sourceTitle = Some ''Alpha'', reason_type = Favori, reason_weight = 2\<rparr>,
                        \<lparr>reason_sourceTitle = Some ''Beta'', reason_type = Favori, reason_weight = 2\<rparr>]\<rparr>),
      (20, \<lparr>cand_media = run_media 20 [''Drama''] [], baseScore = 2,
            reasons = [\<lparr>reason_sourceTitle = Some ''Alpha'', reason_type = Favori, reason_weight = 2\<rparr>]\<rparr>),
      (21, \<lparr>cand_media = run_media 21 [] [], baseScore = 2,
            reasons = [\<lparr>reason_sourceTitle = Some ''Beta'', reason_type = Favori, reason_weight = 2\<rparr>]\<rparr>),
      (101, \<lparr>cand_media = run_media 101 [''Drama''] [], baseScore = 1,
            reasons = [\<lparr>reason_sourceTitle = Some ''E'', reason_type = TopNote, reason_weight = 1\<rparr>]\<rparr>),
      (3, \<lparr>cand_media = run_media 3 [''Action''] [], baseScore = 1,
            reasons = [\<lparr>reason_sourceTitle = Some ''E'', reason_type = TopNote, reason_weight = 1\<rparr>]\<rparr>)]"
  by (simp add: fanout_eval run_tasks_def run_recommendations_def run_media_def)

lemma toFixed1_int: "toFixed1 (of_int n) = of_int n"
  using toFixed1_tenths[of "10 * n"] by simp

lemma toFixed1_numeral:
  "toFixed1 (numeral n / 10) = numeral n / 10"
  "toFixed1 (numeral n) = numeral n"
  "toFixed1 0 = 0"
  using toFixed1_tenths[of "numeral n"] toFixed1_int[of "numeral n"] toFixed1_int[of 0]
  by simp_all

lemma run_pipeline:
  "pipeline run_favs run_userList run_recommendations = run_results"
  by (simp add: pipeline_def run_tasks_of run_scoreMap run_profile Let_def filtered_of_def
      refine_def common_of_def Math_round_numeral toFixed1_numeral TAG_BONUS_def GENRE_BONUS_def
      finalResults_def diversified_of_def deferred_of_def primaryGenre_def DIVERSITY_CAP_def
      run_media_def run_results_def run_result_def)

lemma run_compute: "computeRecommendations first run_remote = Some (Inr run_results)"
  by (simp add: computeRecommendations_def run_remote_def run_fetch_favs run_fetch_list run_pipeline)

lemma div_final:
  "diversified_of div_input =
     [div_entry 1 9 ''Action'', div_entry 2 8 ''Action'', div_entry 3 7 ''Action'',
      div_entry 4 6 ''Action'', div_entry 5 5 ''Action'', div_entry 7 3 ''Drama'',
      div_entry 9 1 ''Drama'']"
  "deferred_of div_input = [div_entry 6 4 ''Action'', div_entry 8 2 ''Action'']"
  by (simp_all add: diversified_of_def deferred_of_def div_input_def div_entry_def
      run_result_def run_media_def primaryGenre_def DIVERSITY_CAP_def)

lemma many_tasks:
  "map task_mediaId (tasks_of many_favs many_rated) =
     [1, 2, 3, 4, 5, 6, 7, 8, 9, 10, 11, 12, 13, 14, 15, 17, 18, 19, 20, 21, 22, 23, 24, 25]"
  "map task_mediaId (spec_tasks many_favs many_rated) =
     [1, 2, 3, 4, 5, 6, 7, 8, 9, 10, 11, 12, 13, 14, 15, 17, 18, 19, 20, 21, 22, 23, 24, 25, 26]"
  by (simp_all add: tasks_of_eq spec_tasks_def spec_rated_seeds_def many_favs_def many_rated_def
      rated_def eligible_def fav_seed_def rated_seed_def)

lemma many_seeds:
  "map mediaId (filter eligible many_rated) =
     [1, 2, 3, 4, 5, 6, 7, 8, 9, 10, 11, 12, 13, 14, 15, 16,
      17, 18, 19, 20, 21, 22, 23, 24, 25, 26]"
  "map mediaId (spec_rated_seeds many_favs many_rated) =
     [17, 18, 19, 20, 21, 22, 23, 24, 25, 26]"
  "map mediaId (topOnly many_favs many_rated) = [17, 18, 19, 20, 21, 22, 23, 24, 25]"
  by (simp_all add: topOnly_eq spec_rated_seeds_def many_favs_def many_rated_def
      rated_def eligible_def)

lemma batch_fanout:
  "fanout batch_gql batch_tasks =
     ([(10, \<lparr>cand_media = ex_media 10 ''Action'', baseScore = 2,
             reasons = [reason_of (ex_seed 13 2 Favori)]\<rparr>)],
      [HttpStatus 500])"
  by (simp add: fanout_eval batch_gql_def batch_tasks_def ex_seed_def ex_media_def)

lemma batch_first:
  "0 < length batch_tasks \<and>
   batch_gql (map task_mediaId (take CHUNK (drop 0 batch_tasks))) = Inl (HttpStatus 500)"
  by (simp add: batch_gql_def batch_tasks_def ex_seed_def CHUNK_def)

lemma failing_fetches:
  "fetchAllFavourites (favouritesPage (failing_remote (Inl TooManyRequests) (Inr ()))) =
     Some (Inl TooManyRequests)"
  "fetchAllFavourites (favouritesPage (failing_remote (Inr ()) (Inr ()))) = Some (Inr [])"
  "fetchAllFavourites (favouritesPage (failing_remote (Inr ()) (Inl TokenExpired))) = Some (Inr [])"
  "fetchUserList (userListData (failing_remote (Inr ()) (Inl TokenExpired))) = Inl TokenExpired"
  "fetchUserList (userListData (failing_remote (Inr ()) (Inr ()))) = Inr []"
  by (simp_all add: failing_remote_def fetchAllFavourites_def favourites_loop.simps
      fetchUserList_def)

lemma both_fail:
  "computeRecommendations FavouritesFirst
     (failing_remote (Inl TooManyRequests) (Inl (HttpStatus 404))) = Some (Inl TooManyRequests)"
  "computeRecommendations ListFirst
     (failing_remote (Inl TooManyRequests) (Inl (HttpStatus 404))) = Some (Inl (HttpStatus 404))"
  by (simp_all add: computeRecommendations_def failing_remote_def fetchAllFavourites_def
      favourites_loop.simps fetchUserList_def)

lemma empty_pipeline: "pipeline [] [] gql = []"
  by (simp add: pipeline_def tasks_of_def topOnly_def topRated_def fanout_def
      fanout_loop.simps filtered_of_def finalResults_def diversified_of_def deferred_of_def)

lemma other_requested: "requested_batches (tasks_of run_favs run_userList) = [[1, 2, 3, 4, 20]]"
  by (simp add: run_tasks_of requested_batches_def run_tasks_def CHUNK_def)

lemma other_fetches:
  "favouritesPage other_remote = favouritesPage run_remote"
  "userListData other_remote = userListData run_remote"
  "recommendations other_remote [] \<noteq> recommendations run_remote []"
  by (simp_all add: other_remote_def run_remote_def run_recommendations_def)

section \<open>The claims\<close>

text \<open>
  Claim C1, as the code has it. For every candidate \<open>k\<close> of the score map that
  the fan-out builds, \<^verbatim>\<open>baseScore\<close> is the sum of the seed weights over the seed
  hits of \<open>k\<close>, one summand for each time a seed's batch lists \<open>k\<close>, and
  \<^verbatim>\<open>reasons\<close> holds one record for each of these hits, in the order of the hits.
  Two runs whose seed hits agree up to order give \<open>k\<close> the same \<^verbatim>\<open>baseScore\<close>.
  When no seed's batch lists a title twice, \<^verbatim>\<open>baseScore\<close> is the sum of the weights
  of the seeds whose batch lists \<open>k\<close>.
\<close>

theorem fanout_baseScore_sums_seed_hits:
  assumes "(k, c) \<in> set (fst (fanout gql tasks))"
  shows "baseScore c = sum_list (map weight (hits_of k (seed_hits gql tasks)))
       \<and> reasons c = map reason_of (hits_of k (seed_hits gql tasks))
       \<and> length (reasons c) = length (hits_of k (seed_hits gql tasks))
       \<and> (\<forall>gql' tasks' c'.
            mset (seed_hits gql' tasks') = mset (seed_hits gql tasks)
            \<and> (k, c') \<in> set (fst (fanout gql' tasks'))
            \<longrightarrow> baseScore c' = baseScore c)
       \<and> ((\<forall>p<length tasks. distinct (map media_id (seed_batch gql tasks p)))
            \<longrightarrow> baseScore c = spec_baseScore gql tasks k)"
proof (intro conjI allI impI)
  show b: "baseScore c = sum_list (map weight (hits_of k (seed_hits gql tasks)))"
    by (rule fanout_entry(1)[OF assms])
  show r: "reasons c = map reason_of (hits_of k (seed_hits gql tasks))"
    by (rule fanout_entry(2)[OF assms])
  show "length (reasons c) = length (hits_of k (seed_hits gql tasks))"
    by (simp add: r)
  show "baseScore c' = baseScore c"
    if "mset (seed_hits gql' tasks') = mset (seed_hits gql tasks)
        \<and> (k, c') \<in> set (fst (fanout gql' tasks'))" for gql' tasks' c'
  proof -
    have "baseScore c' = sum_list (map weight (hits_of k (seed_hits gql' tasks')))"
      using that by (simp add: fanout_entry(1))
    with that b show ?thesis by (simp only: hit_weight_mset)
  qed
  show "baseScore c = spec_baseScore gql tasks k"
    if "\<forall>p<length tasks. distinct (map media_id (seed_batch gql tasks p))"
    using that b by (simp only: spec_baseScore_distinct)
qed

theorem fanout_baseScore_sums_seed_hits_witness:
  "(10, \<lparr>cand_media = ex_media 10 ''Action'', baseScore = 4,
         reasons = [reason_of (ex_seed 1 2 Favori), reason_of (ex_seed 2 2 Favori)]\<rparr>)
     \<in> set (fst (fanout ex_gql ex_tasks))
   \<and> hits_of 10 (seed_hits ex_gql ex_tasks) = [ex_seed 1 2 Favori, ex_seed 2 2 Favori]
   \<and> sum_list (map weight (hits_of 10 (seed_hits ex_gql ex_tasks))) = 4
   \<and> mset (seed_hits ex_gql (rev ex_tasks)) = mset (seed_hits ex_gql ex_tasks)
   \<and> (10, \<lparr>cand_media = ex_media 10 ''Action'', baseScore = 4,
         reasons = [reason_of (ex_seed 2 2 Favori), reason_of (ex_seed 1 2 Favori)]\<rparr>)
     \<in> set (fst (fanout ex_gql (rev ex_tasks)))
   \<and> list_all (\<lambda>p. distinct (map media_id (seed_batch ex_gql ex_tasks p)))
         [0..<length ex_tasks]
   \<and> spec_baseScore ex_gql ex_tasks 10 = 4"
proof -
  let ?c = "\<lparr>cand_media = ex_media 10 ''Action'', baseScore = 4,
         reasons = [reason_of (ex_seed 1 2 Favori), reason_of (ex_seed 2 2 Favori)]\<rparr>"
  have h: "(10, ?c) \<in> set (fst (fanout ex_gql ex_tasks))"
    by (simp add: ex_fanout)
  have r: "(10, \<lparr>cand_media = ex_media 10 ''Action'', baseScore = 4,
         reasons = [reason_of (ex_seed 2 2 Favori), reason_of (ex_seed 1 2 Favori)]\<rparr>)
     \<in> set (fst (fanout ex_gql (rev ex_tasks)))"
    by (simp add: ex_fanout_rev)
  have k: "hits_of 10 (seed_hits ex_gql ex_tasks) = [ex_seed 1 2 Favori, ex_seed 2 2 Favori]"
    by (simp add: ex_hits hits_of_def ex_media_def)
  from fanout_baseScore_sums_seed_hits [OF h] ex_distinct
  have "spec_baseScore ex_gql ex_tasks 10 = 4"
    and "sum_list (map weight (hits_of 10 (seed_hits ex_gql ex_tasks))) = 4"
    by simp_all
  moreover have "list_all (\<lambda>p. distinct (map media_id (seed_batch ex_gql ex_tasks p)))
         [0..<length ex_tasks]"
    using ex_distinct by (simp add: list_all_iff)
  ultimately show ?thesis
    using h r k ex_mset by (simp only: simp_thms)
qed

text \<open>
  The claim as it is worded fails when a seed's batch lists a title twice: one
  favourite of weight 2 whose batch holds title 10 twice gives that title the
  \<^verbatim>\<open>baseScore\<close> 4, while the weights of the seeds that list it sum to 2.
\<close>

theorem fanout_baseScore_counterexample:
  "(10, \<lparr>cand_media = ex_media 10 ''Action'', baseScore = 4,
         reasons = [reason_of (ex_seed 1 2 Favori), reason_of (ex_seed 1 2 Favori)]\<rparr>)
     \<in> set (fst (fanout dup_gql [ex_seed 1 2 Favori]))
   \<and> spec_baseScore dup_gql [ex_seed 1 2 Favori] 10 = 2"
  by (simp add: dup_fanout dup_spec)

text \<open>
  Claim C2. Let a run return a result list, from the favourites and the
  rated list that step 1 fetched. No title that the rated list holds with a
  status other than PLANNING is in the result list. A title of the score map
  that the rated list holds with the status PLANNING only is in the result
  list, with \<^verbatim>\<open>isPlanning\<close> true. Every entry of the result list has
  \<^verbatim>\<open>isPlanning\<close> true exactly when the rated list holds its title with the
  status PLANNING, so every other entry has it false.
\<close>

theorem seen_titles_excluded_planning_flagged:
  assumes "fetchAllFavourites (favouritesPage r) = Some (Inr favs)"
    and "fetchUserList (userListData r) = Inr ul"
    and "computeRecommendations first r = Some (Inr results)"
  shows
  "(\<forall>x\<in>set results.
      \<not> (\<exists>e\<in>set ul. mediaId e = media_id (cand_media x) \<and> status e \<noteq> Some ''PLANNING''))
   \<and> (\<forall>k. k \<in> fst ` set (fst (fanout (recommendations r) (tasks_of favs ul)))
          \<and> (\<exists>e\<in>set ul. mediaId e = k)
          \<and> (\<forall>e\<in>set ul. mediaId e = k \<longrightarrow> status e = Some ''PLANNING'')
        \<longrightarrow> (\<exists>x\<in>set results. media_id (cand_media x) = k \<and> isPlanning x))
   \<and> (\<forall>x\<in>set results.
        isPlanning x =
          (\<exists>e\<in>set ul. mediaId e = media_id (cand_media x) \<and> status e = Some ''PLANNING''))"
proof -
  have res: "results = pipeline favs ul (recommendations r)"
    using compute_completes[OF assms(2) assms(1)] assms(3) by simp
  show ?thesis
    unfolding res
  proof (intro conjI ballI allI impI)
    fix x assume "x \<in> set (pipeline favs ul (recommendations r))"
    from pipeline_entry[OF this]
    show "\<not> (\<exists>e\<in>set ul. mediaId e = media_id (cand_media x) \<and> status e \<noteq> Some ''PLANNING'')"
      and "isPlanning x =
            (\<exists>e\<in>set ul. mediaId e = media_id (cand_media x) \<and> status e = Some ''PLANNING'')"
      by (auto simp: in_seenIds in_planningIds)
  next
    fix k
    assume a: "k \<in> fst ` set (fst (fanout (recommendations r) (tasks_of favs ul)))
            \<and> (\<exists>e\<in>set ul. mediaId e = k)
            \<and> (\<forall>e\<in>set ul. mediaId e = k \<longrightarrow> status e = Some ''PLANNING'')"
    then obtain c where c: "(k, c) \<in> set (fst (fanout (recommendations r) (tasks_of favs ul)))"
      by auto
    from a have "k \<notin> seenIds ul" "k \<in> planningIds ul"
      by (auto simp: in_seenIds in_planningIds)
    with pipeline_retains[OF c]
    show "\<exists>x\<in>set (pipeline favs ul (recommendations r)). media_id (cand_media x) = k \<and> isPlanning x"
      by auto
  qed
qed

theorem seen_titles_excluded_planning_flagged_witness:
  "fetchAllFavourites (favouritesPage run_remote) = Some (Inr run_favs)
   \<and> fetchUserList (userListData run_remote) = Inr run_userList
   \<and> computeRecommendations ListFirst run_remote = Some (Inr run_results)
   \<and> 21 \<in> fst ` set (fst (fanout (recommendations run_remote) (tasks_of run_favs run_userList)))
   \<and> (\<exists>e\<in>set run_userList. mediaId e = 21)
   \<and> list_all (\<lambda>e. mediaId e = 21 \<longrightarrow> status e = Some ''PLANNING'') run_userList
   \<and> (\<exists>x\<in>set run_results. media_id (cand_media x) = 21 \<and> isPlanning x)
   \<and> 20 \<in> fst ` set (fst (fanout (recommendations run_remote) (tasks_of run_favs run_userList)))
   \<and> (\<exists>e\<in>set run_userList. mediaId e = 20 \<and> status e \<noteq> Some ''PLANNING'')
   \<and> 20 \<notin> (\<lambda>x. media_id (cand_media x)) ` set run_results"
proof -
  have f: "fetchAllFavourites (favouritesPage run_remote) = Some (Inr run_favs)"
    and l: "fetchUserList (userListData run_remote) = Inr run_userList"
    by (simp_all add: run_remote_def run_fetch_favs run_fetch_list)
  note t = seen_titles_excluded_planning_flagged [OF f l run_compute]
  have a: "21 \<in> fst ` set (fst (fanout (recommendations run_remote) (tasks_of run_favs run_userList)))"
    and a': "20 \<in> fst ` set (fst (fanout (recommendations run_remote) (tasks_of run_favs run_userList)))"
    by (simp_all add: run_remote_def run_tasks_of run_scoreMap)
  have b: "\<exists>e\<in>set run_userList. mediaId e = 21"
    and b': "\<exists>e\<in>set run_userList. mediaId e = 20 \<and> status e \<noteq> Some ''PLANNING''"
    by (simp_all add: run_userList_def)
  have c: "\<forall>e\<in>set run_userList. mediaId e = 21 \<longrightarrow> status e = Some ''PLANNING''"
    by (simp add: run_userList_def)
  have "21 \<in> fst ` set (fst (fanout (recommendations run_remote) (tasks_of run_favs run_userList)))
          \<and> (\<exists>e\<in>set run_userList. mediaId e = 21)
          \<and> (\<forall>e\<in>set run_userList. mediaId e = 21 \<longrightarrow> status e = Some ''PLANNING'')"
    using a b c by (intro conjI)
  from t[THEN conjunct2, THEN conjunct1, rule_format, OF this]
  have d: "\<exists>x\<in>set run_results. media_id (cand_media x) = 21 \<and> isPlanning x" .
  have e: "20 \<notin> (\<lambda>x. media_id (cand_media x)) ` set run_results"
  proof
    assume "20 \<in> (\<lambda>x. media_id (cand_media x)) ` set run_results"
    then obtain x where x: "x \<in> set run_results" and k: "media_id (cand_media x) = 20"
      by force
    from t[THEN conjunct1, rule_format, OF x] k b' show False by simp
  qed
  from c have "list_all (\<lambda>e. mediaId e = 21 \<longrightarrow> status e = Some ''PLANNING'') run_userList"
    by (simp add: list_all_iff)
  with f l run_compute a a' b b' d e show ?thesis by (simp only: simp_thms)
qed

text \<open>
  Claim C3. For every entry of the result list of a run, with the tag
  profile and the top genres of the rated list that step 1 fetched: the tag component is
  \<open>min (number of shared tags) 3 * 0.5\<close>, at most 1.5; the genre component is
  \<open>min (number of shared genres) 3 * 0.3\<close>, at most 0.9; \<^verbatim>\<open>tagBonus\<close> stores their
  sum; \<^verbatim>\<open>score\<close> is \<^verbatim>\<open>baseScore\<close> plus both, rounded to one decimal, which
  leaves that sum as it is; \<^verbatim>\<open>commonTags\<close> is the first five of the matches
  sorted by descending strength, so it holds at most five, in descending
  order, each with the strength \<open>round (totalRank / count)\<close> of its tag in the
  profile.
\<close>

theorem refined_score_and_common_tags:
  assumes "fetchUserList (userListData r) = Inr ul"
    and "computeRecommendations first r = Some (Inr results)"
    and "x \<in> set results"
  shows "tag_part (userTagMap ul) (cand_media x) \<le> 3 / 2
       \<and> genre_part (topGenres ul) (cand_media x) \<le> 9 / 10
       \<and> tagBonus x = tag_part (userTagMap ul) (cand_media x) + genre_part (topGenres ul) (cand_media x)
       \<and> score x = toFixed1 (of_int (baseScore x) + tag_part (userTagMap ul) (cand_media x)
                                + genre_part (topGenres ul) (cand_media x))
       \<and> score x = of_int (baseScore x) + tagBonus x
       \<and> commonTags x =
           take 5 (sort_key (\<lambda>c. - strength c)
                     (common_of (userTagMap ul) (tags_of (cand_media x))))
       \<and> length (commonTags x) \<le> 5
       \<and> sorted_wrt (\<lambda>a b. strength b \<le> strength a) (commonTags x)
       \<and> (\<forall>c\<in>set (commonTags x).
            \<exists>u. map_of (userTagMap ul) (common_name c) = Some u \<and> 0 < occurrences u
              \<and> strength c = Math_round (of_int (totalRank u) / of_nat (occurrences u)))"
proof -
  let ?tm = "userTagMap ul" and ?tg = "topGenres ul"
  from assms(1,2) obtain favs where "results = pipeline favs ul (recommendations r)"
    by (auto simp: computeRecommendations_def split: option.splits sum.splits arrival.splits)
  with assms(3) obtain y where x: "x = refine ?tm ?tg y"
    by (auto simp: set_pipeline)
  have m: "cand_media x = cand_media y" and b: "baseScore x = baseScore y"
    by (simp_all add: x refine_fields)
  have tp: "tag_part ?tm (cand_media x) \<le> 3 / 2"
    by (simp add: tag_part_def TAG_BONUS_def min_def)
  have gp: "genre_part ?tg (cand_media x) \<le> 9 / 10"
    by (simp add: genre_part_def GENRE_BONUS_def min_def)
  have tb: "tagBonus x = tag_part ?tm (cand_media x) + genre_part ?tg (cand_media x)"
    by (simp add: x refine_tagBonus refine_fields tag_part_def genre_part_def)
  have sc: "score x = of_int (baseScore x) + tag_part ?tm (cand_media x) + genre_part ?tg (cand_media x)"
    by (simp add: x refine_score refine_fields tag_part_def genre_part_def)
  have sf: "score x = toFixed1 (of_int (baseScore x) + tag_part ?tm (cand_media x)
                                + genre_part ?tg (cand_media x))"
    unfolding sc tag_part_def genre_part_def by (simp only: toFixed1_score)
  have ct: "commonTags x = take 5 (sort_key (\<lambda>c. - strength c) (common_of ?tm (tags_of (cand_media x))))"
    by (simp add: x refine_commonTags refine_fields)
  have len: "length (commonTags x) \<le> 5"
    by (simp add: ct)
  have so: "sorted_wrt (\<lambda>a b. strength b \<le> strength a) (commonTags x)"
    unfolding ct by (rule sorted_wrt_take) (rule sorted_desc_sort_key)
  have st: "\<exists>u. map_of ?tm (common_name c) = Some u \<and> 0 < occurrences u
              \<and> strength c = Math_round (of_int (totalRank u) / of_nat (occurrences u))"
    if "c \<in> set (commonTags x)" for c
  proof -
    from that have "c \<in> set (common_of ?tm (tags_of (cand_media x)))"
      unfolding ct by (auto dest: in_set_takeD)
    from common_of_strength[OF this] userTagMap_pos show ?thesis by blast
  qed
  from tp gp tb sc sf ct len so st show ?thesis by simp
qed

theorem refined_score_and_common_tags_witness:
  "fetchUserList (userListData run_remote) = Inr run_userList
   \<and> computeRecommendations ListFirst run_remote = Some (Inr run_results)
   \<and> hd run_results \<in> set run_results
   \<and> tag_part (userTagMap run_userList) (cand_media (hd run_results)) = 1
   \<and> genre_part (topGenres run_userList) (cand_media (hd run_results)) = 3 / 10
   \<and> tagBonus (hd run_results) = 13 / 10
   \<and> baseScore (hd run_results) = 4
   \<and> score (hd run_results) = 53 / 10
   \<and> map strength (commonTags (hd run_results)) = [71, 70]"
proof -
  have l: "fetchUserList (userListData run_remote) = Inr run_userList"
    by (simp add: run_remote_def run_fetch_list)
  have h: "hd run_results \<in> set run_results"
    by (simp add: run_results_def)
  have v: "tag_part (userTagMap run_userList) (cand_media (hd run_results)) = 1"
      "genre_part (topGenres run_userList) (cand_media (hd run_results)) = 3 / 10"
    by (simp_all add: tag_part_def genre_part_def shared_tags_def shared_genres_def tags_of_def
        genres_of_def run_profile run_results_def run_result_def run_media_def TAG_BONUS_def
        GENRE_BONUS_def)
  have w: "baseScore (hd run_results) = 4"
      "map strength (commonTags (hd run_results)) = [71, 70]"
    by (simp_all add: run_results_def run_result_def)
  from refined_score_and_common_tags [OF l run_compute h]
  have "tagBonus (hd run_results) =
          tag_part (userTagMap run_userList) (cand_media (hd run_results))
          + genre_part (topGenres run_userList) (cand_media (hd run_results))"
    and "score (hd run_results) = of_int (baseScore (hd run_results)) + tagBonus (hd run_results)"
    by blast+
  with v w have "tagBonus (hd run_results) = 13 / 10" "score (hd run_results) = 53 / 10"
    by simp_all
  with l run_compute h v w show ?thesis
    by (simp only: simp_thms)
qed

text \<open>
  Claim C4. The diversity re-rank returns a permutation of its input: the
  undeferred entries followed by the deferred ones. Among the undeferred
  entries, which are the first \<open>length diversified\<close> positions of the result, at
  most five share a primary genre, whether the primary genre is read as the
  code computes it or as the first genre with Unknown for an empty list. Both
  parts keep the order the entries had in the input, so on an input sorted by
  descending score the deferred entries are in descending score order.
\<close>

theorem diversity_rerank_permutes_and_caps:
  "mset (finalResults xs) = mset xs
   \<and> finalResults xs = diversified_of xs @ deferred_of xs
   \<and> take (length (diversified_of xs)) (finalResults xs) = diversified_of xs
   \<and> (\<forall>g. length (filter (\<lambda>e. spec_primaryGenre (cand_media e) = g)
                   (take (length (diversified_of xs)) (finalResults xs))) \<le> 5)
   \<and> (\<forall>g. genre_count g (take (length (diversified_of xs)) (finalResults xs)) \<le> 5)
   \<and> subseq (diversified_of xs) xs
   \<and> subseq (deferred_of xs) xs
   \<and> (sorted_wrt (\<lambda>a b. score b \<le> score a) xs
        \<longrightarrow> sorted_wrt (\<lambda>a b. score b \<le> score a) (deferred_of xs))"
proof -
  have t: "take (length (diversified_of xs)) (finalResults xs) = diversified_of xs"
    by (simp add: finalResults_def)
  have "length (filter (\<lambda>e. spec_primaryGenre (cand_media e) = g) (diversified_of xs)) \<le> 5" for g
    using spec_genre_count_diversified[of g xs] by (simp add: DIVERSITY_CAP_def)
  moreover have "genre_count g (diversified_of xs) \<le> 5" for g
    using genre_count_diversified[of g xs] by (simp add: DIVERSITY_CAP_def)
  moreover have "sorted_wrt (\<lambda>a b. score b \<le> score a) (deferred_of xs)"
    if "sorted_wrt (\<lambda>a b. score b \<le> score a) xs"
    using sorted_wrt_subseq[OF subseq_deferred that] .
  ultimately show ?thesis
    using mset_finalResults[of xs] subseq_diversified[of xs] subseq_deferred[of xs]
    by (simp add: t) (simp add: finalResults_def)
qed

theorem diversity_rerank_permutes_and_caps_witness:
  "sorted_wrt (\<lambda>a b. score b \<le> score a) div_input
   \<and> sorted_wrt (\<lambda>a b. score b \<le> score a) (deferred_of div_input)
   \<and> deferred_of div_input = [div_entry 6 4 ''Action'', div_entry 8 2 ''Action'']
   \<and> finalResults div_input =
       [div_entry 1 9 ''Action'', div_entry 2 8 ''Action'', div_entry 3 7 ''Action'',
        div_entry 4 6 ''Action'', div_entry 5 5 ''Action'', div_entry 7 3 ''Drama'',
        div_entry 9 1 ''Drama'', div_entry 6 4 ''Action'', div_entry 8 2 ''Action'']
   \<and> genre_count ''Action'' (take (length (diversified_of div_input)) (finalResults div_input)) = 5"
proof -
  have s: "sorted_wrt (\<lambda>a b. score b \<le> score a) div_input"
    by (simp add: div_input_def div_entry_def run_result_def)
  from diversity_rerank_permutes_and_caps [of div_input] s
  have "sorted_wrt (\<lambda>a b. score b \<le> score a) (deferred_of div_input)"
    and "finalResults div_input = diversified_of div_input @ deferred_of div_input"
    and "take (length (diversified_of div_input)) (finalResults div_input) = diversified_of div_input"
    by simp_all
  moreover have "genre_count ''Action'' (diversified_of div_input) = 5"
    by (simp add: div_final genre_count_def div_entry_def run_result_def run_media_def
        primaryGenre_def)
  ultimately show ?thesis
    using s by (simp add: div_final)
qed

text \<open>
  Claim C5, at the input where the code leaves it. The seeds are the first
  15 favourites in the order of the remote, each with weight 2, followed by
  the rated seeds, each with weight 1, which are an initial part of the ten
  best eligible entries that are no favourites. For a user with 16 favourites
  that lead the rated list and ten further rated titles, the ten best rated
  titles that are no favourites are titles 17 to 26, and the code takes only
  the nine titles 17 to 25 as rated seeds.
\<close>

theorem rated_seeds_with_sixteen_favourites:
  "tasks_of favs ul = map fav_seed (take 15 favs) @ map rated_seed (topOnly favs ul)
   \<and> prefix (topOnly favs ul) (spec_rated_seeds favs ul)
   \<and> length many_favs = 16
   \<and> map mediaId (filter eligible many_rated) =
       [1, 2, 3, 4, 5, 6, 7, 8, 9, 10, 11, 12, 13, 14, 15, 16,
        17, 18, 19, 20, 21, 22, 23, 24, 25, 26]
   \<and> map mediaId (spec_rated_seeds many_favs many_rated) =
       [17, 18, 19, 20, 21, 22, 23, 24, 25, 26]
   \<and> map mediaId (topOnly many_favs many_rated) = [17, 18, 19, 20, 21, 22, 23, 24, 25]
   \<and> map task_mediaId (tasks_of many_favs many_rated) =
       [1, 2, 3, 4, 5, 6, 7, 8, 9, 10, 11, 12, 13, 14, 15, 17, 18, 19, 20, 21, 22, 23, 24, 25]
   \<and> map task_mediaId (spec_tasks many_favs many_rated) =
       [1, 2, 3, 4, 5, 6, 7, 8, 9, 10, 11, 12, 13, 14, 15, 17, 18, 19, 20, 21, 22, 23, 24, 25, 26]
   \<and> tasks_of many_favs many_rated \<noteq> spec_tasks many_favs many_rated"
proof -
  have "length (tasks_of many_favs many_rated) \<noteq> length (spec_tasks many_favs many_rated)"
    using many_tasks(1)[THEN arg_cong, of length] many_tasks(2)[THEN arg_cong, of length]
    by simp
  then have "tasks_of many_favs many_rated \<noteq> spec_tasks many_favs many_rated" by auto
  moreover have "length many_favs = 16" by (simp add: many_favs_def)
  ultimately show ?thesis
    using many_tasks many_seeds tasks_of_topOnly[of favs ul] topOnly_prefix[of favs ul]
    by (simp only: simp_thms)
qed

text \<open>
  Claim C6. A response with status 429 makes the request sleep and call
  itself with the next attempt number, as long as the attempt number is below
  \<open>MAX_RETRIES = 4\<close>; from attempt 4 on, it throws the rate-limit error without
  another call. The pause is the \<^verbatim>\<open>Retry-After\<close> hint times 1000 when the hint
  parses to a positive number, and otherwise 1500 times 2 to the power of the
  attempt number, which doubles from one attempt to the next. A request that
  meets status 429 at every attempt sleeps four times and then throws.
\<close>

theorem gqlRequest_backoff_and_ceiling:
  "(http_status (fetch a) = 429 \<and> a < MAX_RETRIES \<longrightarrow>
      outcome (gqlRequest fetch a) = outcome (gqlRequest fetch (a + 1))
      \<and> slept (gqlRequest fetch a) = backoff (fetch a) a # slept (gqlRequest fetch (a + 1)))
   \<and> (http_status (fetch a) = 429 \<and> MAX_RETRIES \<le> a \<longrightarrow>
      outcome (gqlRequest fetch a) = Inl TooManyRequests \<and> slept (gqlRequest fetch a) = [])
   \<and> (\<forall>n. retryAfter res = Some n \<and> 0 < n \<longrightarrow> backoff res a = n * 1000)
   \<and> ((\<forall>n. retryAfter res = Some n \<longrightarrow> n \<le> 0) \<longrightarrow>
      backoff res a = 1500 * 2 ^ a \<and> backoff res (a + 1) = 2 * backoff res a)
   \<and> ((\<forall>k\<le>MAX_RETRIES. http_status (fetch k) = 429) \<longrightarrow>
      outcome (gqlRequest fetch 0) = Inl TooManyRequests
      \<and> slept (gqlRequest fetch 0) = map (\<lambda>k. backoff (fetch k) k) [0..<MAX_RETRIES])
   \<and> length (slept (gqlRequest fetch 0)) \<le> MAX_RETRIES
   \<and> MAX_RETRIES = 4"
proof (intro conjI impI allI)
  assume "http_status (fetch a) = 429 \<and> a < MAX_RETRIES"
  then show "outcome (gqlRequest fetch a) = outcome (gqlRequest fetch (a + 1))"
    and "slept (gqlRequest fetch a) = backoff (fetch a) a # slept (gqlRequest fetch (a + 1))"
    by (simp_all add: gqlRequest_limited)
next
  assume "http_status (fetch a) = 429 \<and> MAX_RETRIES \<le> a"
  then show "outcome (gqlRequest fetch a) = Inl TooManyRequests"
    and "slept (gqlRequest fetch a) = []"
    by (simp_all add: gqlRequest_limited)
next
  fix n assume "retryAfter res = Some n \<and> 0 < n"
  then show "backoff res a = n * 1000" by (simp add: backoff_def)
next
  assume h: "\<forall>n. retryAfter res = Some n \<longrightarrow> n \<le> 0"
  then have b: "backoff res k = 1500 * 2 ^ k" for k
    by (cases "retryAfter res") (auto simp: backoff_def)
  show "backoff res a = 1500 * 2 ^ a" by (rule b)
  show "backoff res (a + 1) = 2 * backoff res a" by (simp add: b)
next
  assume "\<forall>k\<le>MAX_RETRIES. http_status (fetch k) = 429"
  then have "outcome (gqlRequest fetch 0) = Inl TooManyRequests
     \<and> slept (gqlRequest fetch 0) = map (\<lambda>a. backoff (fetch a) a) [0..<MAX_RETRIES]"
    by (intro all_limited) auto
  then show "outcome (gqlRequest fetch 0) = Inl TooManyRequests"
    and "slept (gqlRequest fetch 0) = map (\<lambda>k. backoff (fetch k) k) [0..<MAX_RETRIES]"
    by simp_all
next
  show "length (slept (gqlRequest fetch 0)) \<le> MAX_RETRIES"
    using length_slept[of fetch 0] by simp
  show "MAX_RETRIES = 4" by (rule MAX_RETRIES_def)
qed

theorem gqlRequest_backoff_and_ceiling_witness:
  "list_all (\<lambda>k. http_status (always_limited k) = 429) [0..<MAX_RETRIES + 1]
   \<and> outcome (gqlRequest always_limited 0) = Inl TooManyRequests
   \<and> slept (gqlRequest always_limited 0) = [1500, 3000, 6000, 12000]
   \<and> http_status (always_limited 4) = 429 \<and> MAX_RETRIES \<le> 4
   \<and> slept (gqlRequest always_limited 4) = []
   \<and> retryAfter (limited_twice 0) = Some 0
   \<and> backoff (limited_twice 0) 0 = 1500
   \<and> backoff (limited_twice 0) 1 = 2 * backoff (limited_twice 0) 0
   \<and> http_status (limited_twice 1) = 429 \<and> 1 < MAX_RETRIES
   \<and> retryAfter (limited_twice 1) = Some 30
   \<and> backoff (limited_twice 1) 1 = 30000
   \<and> slept (gqlRequest limited_twice 1) = 30000 # slept (gqlRequest limited_twice 2)
   \<and> outcome (gqlRequest limited_twice 1) = Inr (Some ())"
proof -
  have a: "\<forall>k\<le>MAX_RETRIES. http_status (always_limited k) = 429"
    by (simp add: always_limited_def hint_response_def)
  have r: "retryAfter (always_limited k) = Some 0" for k
    by (simp add: always_limited_def hint_response_def retryAfter_def js_or_def truthy_def
        parseInt_examples)
  have r0: "retryAfter (limited_twice 0) = Some 0"
    by (simp add: limited_twice_def hint_response_def retryAfter_def js_or_def truthy_def
        parseInt_examples)
  have r1: "retryAfter (limited_twice 1) = Some 30 \<and> 0 < (30 :: int)"
    by (simp add: limited_twice_def hint_response_def retryAfter_def js_or_def truthy_def
        parseInt_examples)
  have s1: "http_status (limited_twice 1) = 429 \<and> 1 < MAX_RETRIES"
    by (simp add: limited_twice_def hint_response_def MAX_RETRIES_def)
  have s4: "http_status (always_limited 4) = 429 \<and> MAX_RETRIES \<le> 4"
    by (simp add: always_limited_def hint_response_def MAX_RETRIES_def)
  have n0: "\<forall>n. retryAfter (limited_twice 0) = Some n \<longrightarrow> n \<le> 0"
    by (simp add: r0)
  have o2: "outcome (gqlRequest limited_twice 2) = Inr (Some ())"
    by (simp add: gqlRequest_other limited_twice_def data_response_def after_fetch_def ok_def)
  note t = gqlRequest_backoff_and_ceiling
  from t[of always_limited 0 "always_limited 0"] a
  have "outcome (gqlRequest always_limited 0) = Inl TooManyRequests"
    and "slept (gqlRequest always_limited 0) = map (\<lambda>k. backoff (always_limited k) k) [0..<MAX_RETRIES]"
    by blast+
  moreover have "map (\<lambda>k. backoff (always_limited k) k) [0..<MAX_RETRIES] = [1500, 3000, 6000, 12000]"
    by (simp add: backoff_def r MAX_RETRIES_def upt_rec)
  moreover from t[of always_limited 4 "always_limited 0"] s4
  have "slept (gqlRequest always_limited 4) = []" by blast
  moreover from t[of limited_twice 0 "limited_twice 0"] n0
  have "backoff (limited_twice 0) 0 = 1500 * 2 ^ 0"
    and "backoff (limited_twice 0) (0 + 1) = 2 * backoff (limited_twice 0) 0"
    by blast+
  moreover from t[of limited_twice 1 "limited_twice 1"] r1
  have "backoff (limited_twice 1) 1 = 30 * 1000" by blast
  moreover from t[of limited_twice 1 "limited_twice 1"] s1
  have "outcome (gqlRequest limited_twice 1) = outcome (gqlRequest limited_twice (1 + 1))"
    and "slept (gqlRequest limited_twice 1) =
           backoff (limited_twice 1) 1 # slept (gqlRequest limited_twice (1 + 1))"
    by blast+
  moreover have "list_all (\<lambda>k. http_status (always_limited k) = 429) [0..<MAX_RETRIES + 1]"
    by (simp add: list_all_iff always_limited_def hint_response_def)
  ultimately show ?thesis
    using r0 r1 s1 s4 o2 by (simp add: numeral_2_eq_2)
qed

text \<open>
  Claim C7. A batch whose request fails leaves the score map as it was and
  adds the error to the warnings, and the loop goes on with the next batch.
  When both fetches of step 1 return, the run returns a result list, whatever
  the batch requests do. When the fetch of the favourites or the fetch of the
  list fails, the run fails.
\<close>

theorem failed_batch_skipped_failed_fetch_aborts:
  "(gql (map task_mediaId chunk) = Inl err \<longrightarrow>
      process_chunk gql chunk st = (fst st, snd st @ [err]))
   \<and> (c < length tasks \<and> gql (map task_mediaId (take CHUNK (drop c tasks))) = Inl err \<longrightarrow>
      fanout_loop gql tasks c st = fanout_loop gql tasks (c + CHUNK) (fst st, snd st @ [err]))
   \<and> (fetchUserList (userListData r) = Inr ul
        \<and> fetchAllFavourites (favouritesPage r) = Some (Inr favs) \<longrightarrow>
      computeRecommendations first r = Some (Inr (pipeline favs ul (recommendations r))))
   \<and> (fetchAllFavourites (favouritesPage r) = Some (Inl e) \<longrightarrow>
      (\<exists>e'. computeRecommendations first r = Some (Inl e')))
   \<and> (fetchUserList (userListData r) = Inl e \<longrightarrow>
      (\<exists>e'. computeRecommendations first r = Some (Inl e')))"
  using process_chunk_failed fanout_loop_failed compute_completes compute_aborts_favourites
    compute_aborts_list
  by (intro conjI impI) blast+

theorem failed_batch_skipped_failed_fetch_aborts_witness:
  "0 < length batch_tasks
   \<and> batch_gql (map task_mediaId (take CHUNK (drop 0 batch_tasks))) = Inl (HttpStatus 500)
   \<and> fanout_loop batch_gql batch_tasks 0 ([], []) =
       fanout_loop batch_gql batch_tasks (0 + CHUNK) ([], [HttpStatus 500])
   \<and> fanout batch_gql batch_tasks =
       ([(10, \<lparr>cand_media = ex_media 10 ''Action'', baseScore = 2,
               reasons = [reason_of (ex_seed 13 2 Favori)]\<rparr>)],
        [HttpStatus 500])
   \<and> fetchUserList (userListData (failing_remote (Inr ()) (Inr ()))) = Inr []
   \<and> fetchAllFavourites (favouritesPage (failing_remote (Inr ()) (Inr ()))) = Some (Inr [])
   \<and> computeRecommendations FavouritesFirst (failing_remote (Inr ()) (Inr ())) = Some (Inr [])
   \<and> fetchAllFavourites (favouritesPage (failing_remote (Inl TooManyRequests) (Inr ()))) =
       Some (Inl TooManyRequests)
   \<and> (\<exists>e'. computeRecommendations FavouritesFirst (failing_remote (Inl TooManyRequests) (Inr ())) = Some (Inl e'))
   \<and> fetchUserList (userListData (failing_remote (Inr ()) (Inl TokenExpired))) = Inl TokenExpired
   \<and> (\<exists>e'. computeRecommendations FavouritesFirst (failing_remote (Inr ()) (Inl TokenExpired)) = Some (Inl e'))"
proof -
  note t = failed_batch_skipped_failed_fetch_aborts
  note t2 = t[THEN conjunct2, THEN conjunct1, rule_format]
  note t3 = t[THEN conjunct2, THEN conjunct2, THEN conjunct1, rule_format]
  note t4 = t[THEN conjunct2, THEN conjunct2, THEN conjunct2, THEN conjunct1, rule_format]
  note t5 = t[THEN conjunct2, THEN conjunct2, THEN conjunct2, THEN conjunct2, rule_format]
  have a: "fanout_loop batch_gql batch_tasks 0 ([], []) =
       fanout_loop batch_gql batch_tasks (0 + CHUNK) ([], [HttpStatus 500])"
    using t[where gql=batch_gql and c=0 and tasks=batch_tasks and err="HttpStatus 500"
        and st="([], [])" and chunk=batch_tasks and r="failing_remote (Inr ()) (Inr ())"
        and ul="[]" and favs="[]" and e=TooManyRequests and first=FavouritesFirst] batch_first
    by simp
  have "computeRecommendations FavouritesFirst (failing_remote (Inr ()) (Inr ())) =
          Some (Inr (pipeline [] [] (recommendations (failing_remote (Inr ()) (Inr ())))))"
    by (rule t3[OF conjI[OF failing_fetches(5) failing_fetches(2)]])
  then have b: "computeRecommendations FavouritesFirst (failing_remote (Inr ()) (Inr ())) = Some (Inr [])"
    by (simp add: empty_pipeline)
  have c: "\<exists>e'. computeRecommendations FavouritesFirst (failing_remote (Inl TooManyRequests) (Inr ())) = Some (Inl e')"
    by (rule t4[OF failing_fetches(1)])
  have d: "\<exists>e'. computeRecommendations FavouritesFirst (failing_remote (Inr ()) (Inl TokenExpired)) = Some (Inl e')"
    by (rule t5[OF failing_fetches(4)])
  from a b c d batch_first batch_fanout failing_fetches show ?thesis
    by (simp only: simp_thms)
qed

text \<open>
  Claim C8, at the input where the code leaves it. The name of a favourite
  is its english title when that is truthy, otherwise its romaji title when
  that is truthy, otherwise \<open>#\<close> followed by its id. The name of an entry of the
  rated list is its english title when that is truthy and its romaji title
  otherwise, with no third choice: for title 7 with neither, the favourite is
  named \<open>#7\<close> and the entry of the rated list has no name.
\<close>

theorem display_name_of_favourite_and_entry:
  "fav_title (fav_of_node n) =
     (if truthy (english (node_title n)) then english (node_title n)
      else if truthy (romaji (node_title n)) then romaji (node_title n)
      else Some (CHR ''#'' # toString (node_id n)))
   \<and> entry_title (entry_of l e) =
     (if truthy (english (raw_title (raw_entry_media e)))
      then english (raw_title (raw_entry_media e))
      else romaji (raw_title (raw_entry_media e)))
   \<and> fav_title (fav_of_node untitled_node) = Some ''#7''
   \<and> entry_title (entry_of l untitled_entry) = None
   \<and> entry_title (entry_of l untitled_entry) \<noteq> Some ''#7''"
  by (simp add: fav_of_node_def entry_of_def js_or_def truthy_def untitled_node_def
      untitled_entry_def toString_def digits.simps)

text \<open>
  Claim C9. Two runs against the same remote responses return the same
  result list: the same candidates with the same scores in the same order.
  The runs may differ in the one thing that a run takes from the time at which
  the answers arrive, the order in which the two fetches of step 1 fail, and
  the remotes need only answer alike the fetches of step 1 and each batch
  request that the seeds lead to. One run returns a list exactly when the
  other returns that list, fails exactly when the other fails, and does not
  end exactly when the other does not. The two runs are equal in all they
  give, the error of a failed run too, unless both fetches of step 1 fail and
  arrive in another order: then each run fails with the error that reached it
  first. A run that is told that its token is invalid logs out, so the
  requests of a later run may carry no token; \<open>r\<close> and \<open>r'\<close> are the answers that
  the two runs are given, whatever their requests carry.
\<close>

theorem same_responses_same_results:
  assumes "favouritesPage r' = favouritesPage r"
    and "userListData r' = userListData r"
    and "\<And>favs ul. fetchAllFavourites (favouritesPage r) = Some (Inr favs) \<Longrightarrow>
           fetchUserList (userListData r) = Inr ul \<Longrightarrow>
           \<forall>ids\<in>set (requested_batches (tasks_of favs ul)).
             recommendations r' ids = recommendations r ids"
  shows "((computeRecommendations first' r' = Some (Inr results))
            = (computeRecommendations first r = Some (Inr results)))
       \<and> ((\<exists>e. computeRecommendations first' r' = Some (Inl e))
            = (\<exists>e. computeRecommendations first r = Some (Inl e)))
       \<and> ((computeRecommendations first' r' = None) = (computeRecommendations first r = None))
       \<and> (computeRecommendations first' r' = computeRecommendations first r
          \<or> (\<exists>favErr listErr.
                fetchAllFavourites (favouritesPage r) = Some (Inl favErr)
                \<and> fetchUserList (userListData r) = Inl listErr
                \<and> first' \<noteq> first
                \<and> computeRecommendations first r =
                    Some (Inl (case first of FavouritesFirst \<Rightarrow> favErr | ListFirst \<Rightarrow> listErr))
                \<and> computeRecommendations first' r' =
                    Some (Inl (case first' of FavouritesFirst \<Rightarrow> favErr | ListFirst \<Rightarrow> listErr))))"
proof -
  have same: "computeRecommendations first' r' = computeRecommendations first' r"
    by (rule compute_agree[OF assms])
  show ?thesis
  proof (cases "\<exists>favErr listErr. fetchAllFavourites (favouritesPage r) = Some (Inl favErr)
                  \<and> fetchUserList (userListData r) = Inl listErr")
    case False
    then have "computeRecommendations first' r = computeRecommendations first r"
      by (intro compute_arrival) blast
    with same show ?thesis by simp
  next
    case True
    then obtain favErr listErr
      where f: "fetchAllFavourites (favouritesPage r) = Some (Inl favErr)"
        and l: "fetchUserList (userListData r) = Inl listErr"
      by blast
    note b = compute_both_fail[OF f l]
    show ?thesis
    proof (cases "first' = first")
      case True
      with same show ?thesis by simp
    next
      case False
      have "\<exists>favErr listErr.
                fetchAllFavourites (favouritesPage r) = Some (Inl favErr)
                \<and> fetchUserList (userListData r) = Inl listErr
                \<and> first' \<noteq> first
                \<and> computeRecommendations first r =
                    Some (Inl (case first of FavouritesFirst \<Rightarrow> favErr | ListFirst \<Rightarrow> listErr))
                \<and> computeRecommendations first' r' =
                    Some (Inl (case first' of FavouritesFirst \<Rightarrow> favErr | ListFirst \<Rightarrow> listErr))"
        using f l False b[of first] b[of first'] same by (intro exI conjI) simp_all
      moreover have "computeRecommendations first' r' \<noteq> Some (Inr results)"
        "computeRecommendations first r \<noteq> Some (Inr results)"
        "computeRecommendations first' r' \<noteq> None" "computeRecommendations first r \<noteq> None"
        "\<exists>e. computeRecommendations first' r' = Some (Inl e)"
        "\<exists>e. computeRecommendations first r = Some (Inl e)"
        using b[of first] b[of first'] same by simp_all
      ultimately show ?thesis by (simp only: simp_thms)
    qed
  qed
qed

theorem same_responses_same_results_witness:
  "favouritesPage other_remote = favouritesPage run_remote
   \<and> userListData other_remote = userListData run_remote
   \<and> requested_batches (tasks_of run_favs run_userList) = [[1, 2, 3, 4, 20]]
   \<and> recommendations other_remote [1, 2, 3, 4, 20] = recommendations run_remote [1, 2, 3, 4, 20]
   \<and> recommendations other_remote [] \<noteq> recommendations run_remote []
   \<and> computeRecommendations FavouritesFirst run_remote = Some (Inr run_results)
   \<and> computeRecommendations ListFirst other_remote = Some (Inr run_results)
   \<and> computeRecommendations FavouritesFirst
       (failing_remote (Inl TooManyRequests) (Inl (HttpStatus 404))) = Some (Inl TooManyRequests)
   \<and> computeRecommendations ListFirst
       (failing_remote (Inl TooManyRequests) (Inl (HttpStatus 404))) = Some (Inl (HttpStatus 404))"
proof -
  have same: "recommendations other_remote [1, 2, 3, 4, 20] = recommendations run_remote [1, 2, 3, 4, 20]"
    by (simp add: other_remote_def run_remote_def)
  have req: "\<forall>ids\<in>set (requested_batches (tasks_of favs ul)).
             recommendations other_remote ids = recommendations run_remote ids"
    if "fetchAllFavourites (favouritesPage run_remote) = Some (Inr favs)"
      and "fetchUserList (userListData run_remote) = Inr ul" for favs ul
  proof -
    from that have "favs = run_favs" "ul = run_userList"
      by (simp_all add: run_remote_def run_fetch_favs run_fetch_list)
    then show ?thesis by (simp add: other_requested same)
  qed
  note t = same_responses_same_results [OF other_fetches(1) other_fetches(2) req,
      where first'=ListFirst and first=FavouritesFirst and results=run_results]
  have a: "computeRecommendations FavouritesFirst run_remote = Some (Inr run_results)"
    by (rule run_compute)
  from t[THEN conjunct1] a
  have b: "computeRecommendations ListFirst other_remote = Some (Inr run_results)"
    by simp
  from a b other_fetches other_requested same both_fail show ?thesis
    by (simp only: simp_thms)
qed

text \<open>
  Claim C10. A title that is no entry of the rated list is never left out,
  whether it is a favourite or not: when a batch lists it, it is in the result
  list of the run. There is such an input: in the example run, title 3 is a
  favourite, is no entry of the rated list, is listed by the batch of a seed,
  and is in the result list.
\<close>

theorem favourite_outside_rated_list_is_recommended:
  "(\<forall>first r favs ul results k.
      fetchAllFavourites (favouritesPage r) = Some (Inr favs)
      \<and> fetchUserList (userListData r) = Inr ul
      \<and> computeRecommendations first r = Some (Inr results)
      \<and> k \<in> fav_id ` set favs \<and> k \<notin> mediaId ` set ul
      \<and> k \<in> fst ` set (fst (fanout (recommendations r) (tasks_of favs ul)))
      \<longrightarrow> k \<in> (\<lambda>x. media_id (cand_media x)) ` set results)
   \<and> (\<exists>first r favs ul results k.
         fetchAllFavourites (favouritesPage r) = Some (Inr favs)
         \<and> fetchUserList (userListData r) = Inr ul
         \<and> computeRecommendations first r = Some (Inr results)
         \<and> k \<in> fav_id ` set favs \<and> k \<notin> mediaId ` set ul
         \<and> k \<in> fst ` set (fst (fanout (recommendations r) (tasks_of favs ul)))
         \<and> k \<in> (\<lambda>x. media_id (cand_media x)) ` set results)"
proof -
  have g: "k \<in> (\<lambda>x. media_id (cand_media x)) ` set results"
    if "fetchAllFavourites (favouritesPage r) = Some (Inr favs)
        \<and> fetchUserList (userListData r) = Inr ul
        \<and> computeRecommendations first r = Some (Inr results)
        \<and> k \<in> fav_id ` set favs \<and> k \<notin> mediaId ` set ul
        \<and> k \<in> fst ` set (fst (fanout (recommendations r) (tasks_of favs ul)))"
    for first r favs ul results k
  proof -
    from that have res: "results = pipeline favs ul (recommendations r)"
      using compute_completes[of r ul favs first] by simp
    from that obtain c where c: "(k, c) \<in> set (fst (fanout (recommendations r) (tasks_of favs ul)))"
      by auto
    from that have "k \<notin> mediaId ` set ul" by simp
    then have "k \<notin> seenIds ul" by (auto simp: in_seenIds)
    from pipeline_retains[OF c this] show ?thesis unfolding res by force
  qed
  have "fetchAllFavourites (favouritesPage run_remote) = Some (Inr run_favs)"
    and "fetchUserList (userListData run_remote) = Inr run_userList"
    by (simp_all add: run_remote_def run_fetch_favs run_fetch_list)
  moreover have "(3::int) \<in> fav_id ` set run_favs" by (simp add: run_favs_def)
  moreover have "(3::int) \<notin> mediaId ` set run_userList" by (simp add: run_userList_def)
  moreover have
    "3 \<in> fst ` set (fst (fanout (recommendations run_remote) (tasks_of run_favs run_userList)))"
    by (simp add: run_remote_def run_tasks_of run_scoreMap)
  ultimately have h: "fetchAllFavourites (favouritesPage run_remote) = Some (Inr run_favs)
        \<and> fetchUserList (userListData run_remote) = Inr run_userList
        \<and> computeRecommendations FavouritesFirst run_remote = Some (Inr run_results)
        \<and> (3::int) \<in> fav_id ` set run_favs \<and> 3 \<notin> mediaId ` set run_userList
        \<and> 3 \<in> fst ` set (fst (fanout (recommendations run_remote) (tasks_of run_favs run_userList)))"
    using run_compute by (intro conjI)
  from g[OF h] h have "\<exists>first r favs ul results k.
         fetchAllFavourites (favouritesPage r) = Some (Inr favs)
         \<and> fetchUserList (userListData r) = Inr ul
         \<and> computeRecommendations first r = Some (Inr results)
         \<and> k \<in> fav_id ` set favs \<and> k \<notin> mediaId ` set ul
         \<and> k \<in> fst ` set (fst (fanout (recommendations r) (tasks_of favs ul)))
         \<and> k \<in> (\<lambda>x. media_id (cand_media x)) ` set results"
    by blast
  with g show ?thesis by blast
qed

theorem favourite_outside_rated_list_is_recommended_witness:
  "fetchAllFavourites (favouritesPage run_remote) = Some (Inr run_favs)
   \<and> fetchUserList (userListData run_remote) = Inr run_userList
   \<and> computeRecommendations FavouritesFirst run_remote = Some (Inr run_results)
   \<and> 3 \<in> fav_id ` set run_favs
   \<and> 3 \<notin> mediaId ` set run_userList
   \<and> 3 \<in> fst ` set (fst (fanout (recommendations run_remote) (tasks_of run_favs run_userList)))
   \<and> 3 \<in> (\<lambda>x. media_id (cand_media x)) ` set run_results"
proof -
  have "fetchAllFavourites (favouritesPage run_remote) = Some (Inr run_favs)"
    and "fetchUserList (userListData run_remote) = Inr run_userList"
    by (simp_all add: run_remote_def run_fetch_favs run_fetch_list)
  moreover have "(3::int) \<in> fav_id ` set run_favs" by (simp add: run_favs_def)
  moreover have "(3::int) \<notin> mediaId ` set run_userList" by (simp add: run_userList_def)
  moreover have
    "3 \<in> fst ` set (fst (fanout (recommendations run_remote) (tasks_of run_favs run_userList)))"
    by (simp add: run_remote_def run_tasks_of run_scoreMap)
  ultimately have h: "fetchAllFavourites (favouritesPage run_remote) = Some (Inr run_favs)
        \<and> fetchUserList (userListData run_remote) = Inr run_userList
        \<and> computeRecommendations FavouritesFirst run_remote = Some (Inr run_results)
        \<and> (3::int) \<in> fav_id ` set run_favs \<and> 3 \<notin> mediaId ` set run_userList
        \<and> 3 \<in> fst ` set (fst (fanout (recommendations run_remote) (tasks_of run_favs run_userList)))"
    using run_compute by (intro conjI)
  from favourite_outside_rated_list_is_recommended [THEN conjunct1, rule_format, OF h]
  have "3 \<in> (\<lambda>x. media_id (cand_media x)) ` set run_results" .
  with h show ?thesis by (simp only: simp_thms)
qed

end
